theory Spec2Isabelle
  imports Complex_Main
begin

section \<open>Data of the edge handler\<close>

text \<open>
  Numbers are JavaScript numbers in the source; they are modelled as reals. Objects that the
  source may hold as \<open>null\<close> are options. A cell of the graph model is named by a
  natural number, and the view's cell state of a terminal by the cell it belongs to.
\<close>

type_synonym cell = nat

record mxPoint =
  px :: real
  py :: real

record mxRectangle =
  rx :: real
  ry :: real
  rwidth :: real
  rheight :: real

text \<open>Modelled from the spec: \<open>mxRectangle\<close> is missing from the file; the centre of a
  rectangle, as the distance of a handle's centre from the pointer needs it.\<close>

definition getCenterX :: "mxRectangle \<Rightarrow> real" where
  "getCenterX r = rx r + rwidth r / 2"

definition getCenterY :: "mxRectangle \<Rightarrow> real" where
  "getCenterY r = ry r + rheight r / 2"

text \<open>A shape with the part of its DOM node the handler reads: the node's identity and
  the \<open>display\<close> and \<open>visibility\<close> entries of its style.\<close>

record mxShape =
  node :: nat
  bounds :: mxRectangle
  display :: string
  visibility :: string

record mxConnectionConstraint =
  cpoint :: "mxPoint option"
  perimeter :: bool

text \<open>Modelled from the spec: the constructor of \<open>mxConnectionConstraint\<close> is missing
  from the file; \<open>new mxConnectionConstraint()\<close> is the default constraint, with no fixed
  point and the perimeter flag set.\<close>

definition new_mxConnectionConstraint :: mxConnectionConstraint where
  "new_mxConnectionConstraint = \<lparr>cpoint = None, perimeter = True\<rparr>"

record mxGeometry =
  gx :: real
  gy :: real
  gpoints :: "mxPoint option list option"
  goffset :: "mxPoint option"
  sourcePoint :: "mxPoint option"
  targetPoint :: "mxPoint option"

text \<open>The cell state of the edge being edited (\<open>this.state\<close>).\<close>

record mxCellState =
  cell :: cell
  absolutePoints :: "mxPoint option list option"
  absoluteOffset :: mxPoint
  text_shape :: "mxShape option"
  visibleSourceState :: "cell option"
  visibleTargetState :: "cell option"

record mxCellMarker =
  validState :: "cell option"
  markedState :: "cell option"
  validColor :: string
  invalidColor :: string

record mxConstraintHandler =
  currentFocus :: "cell option"
  currentConstraint :: "mxConnectionConstraint option"

record mxMouseEvent =
  getX :: real
  getY :: real
  getGraphX :: real
  getGraphY :: real
  isMouseEvent :: bool
  source_node :: nat
  isGridEnabledEvent :: bool
  isCloneEvent :: bool
  isShiftDown :: bool

text \<open>Modelled from the spec: \<open>mxMouseEvent.isSource\<close> is missing from the file; it says
  whether the shape is the direct source of the event: the event's source node is the node
  of the shape, and never so for a null shape.\<close>

definition me_isSource :: "mxMouseEvent \<Rightarrow> mxShape option \<Rightarrow> bool" where
  "me_isSource me shp = (case shp of None \<Rightarrow> False | Some s \<Rightarrow> node s = source_node me)"

text \<open>Modelled from the spec: \<open>mxEvent.LABEL_HANDLE\<close> is defined outside this file; it is
  the reserved sentinel of the handle indices, distinct from every index of a bend.\<close>

definition LABEL_HANDLE :: int where
  "LABEL_HANDLE = -1"

text \<open>The preview shape (\<open>this.shape\<close>, an \<open>mxPolyline\<close>): its colour. Its points are
  not kept a second time: \<open>createSelectionShape\<close> and \<open>drawPreview\<close> give it the array
  \<open>this.abspoints\<close> itself.\<close>

record mxPolyline =
  stroke :: string

text \<open>The fields of the handler. \<open>abspointsShared\<close> is not a field of the source: it
  records whether the points in \<open>this.abspoints\<close> are the very objects in
  \<open>this.state.absolutePoints\<close>. They are after \<open>init\<close> and \<open>redraw\<close>, which copy the
  array and not its points, and they are not after \<open>mouseMove\<close>, which takes the points of
  the cloned state. A point changed in place in the one array is then changed in the other.\<close>

record mxEdgeHandler =
  state :: mxCellState
  marker :: "mxCellMarker option"
  constraintHandler :: "mxConstraintHandler option"
  error :: "string option"
  shape :: "mxPolyline option"
  bends :: "mxShape option list option"
  labelShape :: "mxShape option"
  points :: "mxPoint option list option"
  abspoints :: "mxPoint option list option"
  abspointsShared :: bool
  label :: "mxPoint option"
  index :: "int option"
  startX :: "real option"
  startY :: "real option"
  isSource :: bool
  isTarget :: bool
  isLabel :: bool
  active :: bool
  cloneEnabled :: bool
  addEnabled :: bool
  removeEnabled :: bool
  allowHandleBoundsCheck :: bool
  snapToTerminals :: bool
  tolerance :: real

section \<open>The graph model and the other collaborators\<close>

text \<open>
  The graph model, the graph and the view are not part of the handler's file. The calls the
  handler makes to them are recorded in a trace, in the order they are made.
\<close>

datatype call =
    BeginUpdate
  | EndUpdate
  | SetGeometry cell mxGeometry
  | Add "cell option" cell nat
  | ConnectCell cell "cell option" bool "mxConnectionConstraint option"
  | ValidationAlert string
  | SetSelectionCell cell
  | Invalidate cell
  | Revalidate cell

datatype error = TypeError | ModelError

datatype 'a result = Ok 'a | Throw error

record world =
  ncells :: nat
  m_geometry :: "cell \<Rightarrow> mxGeometry option"
  m_terminal :: "cell \<Rightarrow> bool \<Rightarrow> cell option"
  m_parent :: "cell \<Rightarrow> cell option"
  m_children :: "cell \<Rightarrow> cell list"
  updateLevel :: int
  trace :: "call list"

text \<open>
  The graph, its view and the global constants the handler reads, and the functions of the
  collaborators it calls, taken as parameters. \<open>fails\<close> says which calls into the model
  layer throw, and in which state.
\<close>

record mxGraph =
  gridSize :: real
  scale :: real
  translate :: mxPoint
  panDx :: real
  panDy :: real
  allowDanglingEdges :: bool
  resetEdgesOnConnect :: bool
  isCellsCloneable :: bool
  IS_IE :: bool
  LABEL_HANDLE_SIZE :: real
  EDGE_SELECTION_COLOR :: string
  snap :: "real \<Rightarrow> real"
  intersects :: "mxRectangle \<Rightarrow> mxRectangle \<Rightarrow> bool"
  getRoutingCenterX :: "cell \<Rightarrow> real"
  getRoutingCenterY :: "cell \<Rightarrow> real"
  parentOrigin :: "cell option \<Rightarrow> mxPoint option"
  getRelativePoint :: "mxCellState \<Rightarrow> real \<Rightarrow> real \<Rightarrow> mxPoint"
  getPoint :: "mxCellState \<Rightarrow> mxGeometry \<Rightarrow> mxPoint"
  findNearestSegment :: "mxCellState \<Rightarrow> real \<Rightarrow> real \<Rightarrow> nat"
  getLabel :: "cell \<Rightarrow> string option"
  isLabelMovable :: "cell \<Rightarrow> bool"
  isTerminalPointMovable :: "cell \<Rightarrow> bool \<Rightarrow> bool"
  isCellDisconnectable :: "cell \<Rightarrow> cell \<Rightarrow> bool \<Rightarrow> bool"
  getEdgeValidationError :: "cell \<Rightarrow> cell option \<Rightarrow> cell option \<Rightarrow> string option"
  getTerminalPort :: "cell \<Rightarrow> cell option \<Rightarrow> bool \<Rightarrow> cell option"
  getConnectionConstraint :: "mxCellState \<Rightarrow> cell option \<Rightarrow> bool \<Rightarrow> mxConnectionConstraint"
  updateFixedTerminalPoint ::
    "mxCellState \<Rightarrow> cell option \<Rightarrow> bool \<Rightarrow> mxConnectionConstraint \<Rightarrow> mxCellState"
  setAbsoluteTerminalPoint :: "mxCellState \<Rightarrow> mxPoint \<Rightarrow> bool \<Rightarrow> mxCellState"
  updatePoints ::
    "mxCellState \<Rightarrow> mxPoint option list option \<Rightarrow> cell option \<Rightarrow> cell option \<Rightarrow> mxCellState"
  updateFloatingTerminalPoints :: "mxCellState \<Rightarrow> cell option \<Rightarrow> cell option \<Rightarrow> mxCellState"
  constraint_update :: "mxMouseEvent \<Rightarrow> bool \<Rightarrow> mxConstraintHandler \<Rightarrow> mxConstraintHandler"
  isCellBendable :: "cell \<Rightarrow> bool"
  createsBends :: bool
  createHandleShape :: "nat \<Rightarrow> mxShape"
  createLabelShape :: mxShape
  DEFAULT_VALID_COLOR :: string
  DEFAULT_INVALID_COLOR :: string
  marker_getState :: "mxMouseEvent \<Rightarrow> mxPoint \<Rightarrow> cell option"
  fails :: "world \<Rightarrow> call \<Rightarrow> bool"

section \<open>Hit-testing the handles\<close>

text \<open>
  \<open>getHandleForEvent\<close>. The local function \<open>checkShape\<close> reads and writes the
  variable \<open>minDistSq\<close> of the enclosing call; here it takes it and returns it.
\<close>

definition hitRect :: "mxGraph \<Rightarrow> mxEdgeHandler \<Rightarrow> mxMouseEvent \<Rightarrow> mxRectangle option" where
  "hitRect g h me =
     (let tol = (if \<not> isMouseEvent me then tolerance h else 1)
      in if allowHandleBoundsCheck h \<and> (IS_IE g \<or> tol > 0)
         then Some \<lparr>rx = getGraphX me - tol, ry = getGraphY me - tol,
                     rwidth = 2 * tol, rheight = 2 * tol\<rparr>
         else None)"

definition checkShape ::
  "mxGraph \<Rightarrow> mxMouseEvent \<Rightarrow> mxRectangle option \<Rightarrow> mxShape option \<Rightarrow> real option
    \<Rightarrow> bool \<times> real option" where
  "checkShape g me hit shp minDistSq =
     (case shp of
        None \<Rightarrow> (False, minDistSq)
      | Some s \<Rightarrow>
          if display s \<noteq> ''none'' \<and> visibility s \<noteq> ''hidden'' \<and>
             (me_isSource me (Some s) \<or>
              (case hit of None \<Rightarrow> False | Some r \<Rightarrow> intersects g (bounds s) r))
          then
            (let dx = getGraphX me - getCenterX (bounds s);
                 dy = getGraphY me - getCenterY (bounds s);
                 tmp = dx * dx + dy * dy
             in case minDistSq of
                  None \<Rightarrow> (True, Some tmp)
                | Some m \<Rightarrow> if tmp \<le> m then (True, Some tmp) else (False, minDistSq))
          else (False, minDistSq))"

text \<open>The loop over \<open>this.bends\<close>, from index \<open>i\<close> on.\<close>

fun checkBends ::
  "mxGraph \<Rightarrow> mxMouseEvent \<Rightarrow> mxRectangle option \<Rightarrow> mxShape option list \<Rightarrow> nat
    \<Rightarrow> real option \<Rightarrow> int option \<Rightarrow> int option" where
  "checkBends g me hit [] i minDistSq result = result"
| "checkBends g me hit (b # bs) i minDistSq result =
     (case checkShape g me hit b minDistSq of
        (True, m) \<Rightarrow> checkBends g me hit bs (Suc i) m (Some (int i))
      | (False, m) \<Rightarrow> checkBends g me hit bs (Suc i) m result)"

definition getHandleForEvent :: "mxGraph \<Rightarrow> mxEdgeHandler \<Rightarrow> mxMouseEvent \<Rightarrow> int option" where
  "getHandleForEvent g h me =
     (let hit = hitRect g h me;
          (result, minDistSq) =
            (if me_isSource me (text_shape (state h)) then (Some LABEL_HANDLE, None)
             else case checkShape g me hit (labelShape h) None of
                    (True, m) \<Rightarrow> (Some LABEL_HANDLE, m)
                  | (False, m) \<Rightarrow> (None, m))
      in case bends h of
           None \<Rightarrow> result
         | Some bs \<Rightarrow> checkBends g me hit bs 0 minDistSq result)"

section \<open>The operations of the model layer\<close>

text \<open>
  Modelled from the spec: the graph model (\<open>getGeometry\<close>, \<open>setGeometry\<close>,
  \<open>getTerminal\<close>, \<open>beginUpdate\<close>, \<open>endUpdate\<close>, \<open>add\<close>), the cloning of a cell and
  \<open>mxGraph.connectCell\<close> are missing from the handler's file. They follow the contracts
  of the spec's section on external interfaces: a nestable transaction bracket, a geometry
  and two terminals per cell, cloning as a value copy into a new cell, and
  \<open>connectCell\<close> setting the terminal of one end. Each call is appended to the trace
  before it acts; a call that fails throws and leaves the model as it was.
\<close>

definition log :: "call \<Rightarrow> world \<Rightarrow> world" where
  "log c w = w\<lparr>trace := trace w @ [c]\<rparr>"

definition beginUpdate :: "world \<Rightarrow> world" where
  "beginUpdate w = log BeginUpdate (w\<lparr>updateLevel := updateLevel w + 1\<rparr>)"

definition endUpdate :: "world \<Rightarrow> world" where
  "endUpdate w = log EndUpdate (w\<lparr>updateLevel := updateLevel w - 1\<rparr>)"

definition model_setGeometry :: "mxGraph \<Rightarrow> cell \<Rightarrow> mxGeometry \<Rightarrow> world \<Rightarrow> unit result \<times> world" where
  "model_setGeometry g c geo w =
     (if fails g w (SetGeometry c geo) then (Throw ModelError, log (SetGeometry c geo) w)
      else (Ok (), log (SetGeometry c geo) (w\<lparr>m_geometry := (m_geometry w)(c := Some geo)\<rparr>)))"

definition getChildCount :: "world \<Rightarrow> cell option \<Rightarrow> nat" where
  "getChildCount w parent = (case parent of None \<Rightarrow> 0 | Some p \<Rightarrow> length (m_children w p))"

definition model_add ::
  "mxGraph \<Rightarrow> cell option \<Rightarrow> cell \<Rightarrow> nat \<Rightarrow> world \<Rightarrow> unit result \<times> world" where
  "model_add g parent child i w =
     (if fails g w (Add parent child i) then (Throw ModelError, log (Add parent child i) w)
      else (Ok (), log (Add parent child i)
         (case parent of
            None \<Rightarrow> w
          | Some p \<Rightarrow>
              w\<lparr>m_parent := (m_parent w)(child := Some p),
                m_children := (m_children w)
                  (p := take i (m_children w p) @ [child] @ drop i (m_children w p))\<rparr>)))"

text \<open>\<open>edge.clone()\<close>: a new cell with a copy of the geometry, no parent and no terminals.\<close>

definition cell_clone :: "cell \<Rightarrow> world \<Rightarrow> cell \<times> world" where
  "cell_clone c w =
     (let n = ncells w
      in (n, w\<lparr>ncells := Suc n,
              m_geometry := (m_geometry w)(n := m_geometry w c),
              m_terminal := (m_terminal w)(n := (\<lambda>_. None)),
              m_parent := (m_parent w)(n := None),
              m_children := (m_children w)(n := [])\<rparr>))"

definition connectCell ::
  "mxGraph \<Rightarrow> cell \<Rightarrow> cell option \<Rightarrow> bool \<Rightarrow> mxConnectionConstraint option \<Rightarrow> world
    \<Rightarrow> unit result \<times> world" where
  "connectCell g edge terminal source constraint w =
     (if fails g w (ConnectCell edge terminal source constraint)
      then (Throw ModelError, log (ConnectCell edge terminal source constraint) w)
      else (Ok (), log (ConnectCell edge terminal source constraint)
         (w\<lparr>m_terminal := (m_terminal w)(edge := (m_terminal w edge)(source := terminal))\<rparr>)))"

text \<open>Modelled from the spec: \<open>mxGeometry.setTerminalPoint\<close> is missing from the file;
  it sets the explicit terminal point of one end.\<close>

definition setTerminalPoint :: "mxGeometry \<Rightarrow> mxPoint \<Rightarrow> bool \<Rightarrow> mxGeometry" where
  "setTerminalPoint geo p source =
     (if source then geo\<lparr>sourcePoint := Some p\<rparr> else geo\<lparr>targetPoint := Some p\<rparr>)"

text \<open>Modelled from the spec: the terminal marker (\<open>mxCellMarker\<close>) and the constraint
  handler (\<open>mxConstraintHandler\<close>) are missing from the file. \<open>reset\<close> of the marker
  forgets the valid and the marked state, \<open>reset\<close> of the constraint handler the focus
  and the constraint.\<close>

definition marker_reset :: "mxCellMarker \<Rightarrow> mxCellMarker" where
  "marker_reset m = m\<lparr>validState := None, markedState := None\<rparr>"

definition constraint_reset :: "mxConstraintHandler \<Rightarrow> mxConstraintHandler" where
  "constraint_reset c = c\<lparr>currentFocus := None, currentConstraint := None\<rparr>"

section \<open>JavaScript arrays and numbers\<close>

text \<open>\<open>Math.round\<close> rounds to the nearest integer, a half upwards.\<close>

definition js_round :: "real \<Rightarrow> real" where
  "js_round v = of_int \<lfloor>v + 1 / 2\<rfloor>"

text \<open>\<open>a[i]\<close>: \<open>undefined\<close> outside the array. \<open>a[i] = v\<close>: the array grows, with
  holes, when \<open>i\<close> is beyond its end; a negative \<open>i\<close> names a property, not an element,
  and leaves the elements as they are.\<close>

definition js_nth :: "'a option list \<Rightarrow> int \<Rightarrow> 'a option" where
  "js_nth a i = (if 0 \<le> i \<and> nat i < length a then a ! nat i else None)"

definition js_array_set :: "'a option list \<Rightarrow> int \<Rightarrow> 'a option \<Rightarrow> 'a option list" where
  "js_array_set a i v =
     (if i < 0 then a
      else if nat i < length a then a[nat i := v]
      else a @ replicate (nat i - length a) None @ [v])"

text \<open>
  An array of points converted to a number, as \<open>i < this.abspoints\<close> does: the array
  becomes the string of its elements joined by commas (a null element gives the empty
  string, a point \<open>[object Object]\<close>), and the string becomes 0 when it is empty and NaN
  (here \<open>None\<close>) otherwise. A comparison with NaN is false.
\<close>

definition array_toNumber :: "mxPoint option list \<Rightarrow> real option" where
  "array_toNumber a = (if a = [] \<or> a = [None] then Some 0 else None)"

definition js_less_array :: "nat \<Rightarrow> mxPoint option list \<Rightarrow> bool" where
  "js_less_array i a = (case array_toNumber a of None \<Rightarrow> False | Some n \<Rightarrow> real i < n)"

section \<open>Starting a gesture\<close>

definition start :: "mxGraph \<Rightarrow> world \<Rightarrow> mxEdgeHandler \<Rightarrow> real \<Rightarrow> real \<Rightarrow> int \<Rightarrow> mxEdgeHandler" where
  "start g w h x y i =
     (let h1 = h\<lparr>startX := Some x, startY := Some y,
                 isSource := (case bends h of None \<Rightarrow> False | Some bs \<Rightarrow> i = 0),
                 isTarget := (case bends h of None \<Rightarrow> False | Some bs \<Rightarrow> i = int (length bs) - 1),
                 isLabel := (i = LABEL_HANDLE)\<rparr>
      in if isSource h1 \<or> isTarget h1
         then (let c = cell (state h1)
               in case m_terminal w c (isSource h1) of
                    None \<Rightarrow> if isTerminalPointMovable g c (isSource h1) then h1\<lparr>index := Some i\<rparr> else h1
                  | Some t \<Rightarrow>
                      if isCellDisconnectable g c t (isSource h1) then h1\<lparr>index := Some i\<rparr> else h1)
         else h1\<lparr>index := Some i\<rparr>)"

section \<open>The point of an event\<close>

definition getSnapToTerminalTolerance :: "mxGraph \<Rightarrow> real" where
  "getSnapToTerminalTolerance g = gridSize g * scale g / 2"

text \<open>The local functions of \<open>getPointForEvent\<close> work on its variables \<open>point\<close>,
  \<open>overrideX\<close> and \<open>overrideY\<close>, passed here as a triple.\<close>

type_synonym snap_state = "mxPoint \<times> bool \<times> bool"

definition snapToPoint :: "real \<Rightarrow> mxPoint option \<Rightarrow> snap_state \<Rightarrow> snap_state" where
  "snapToPoint tt pt s =
     (case pt of
        None \<Rightarrow> s
      | Some p \<Rightarrow>
          (case s of (point, overrideX, overrideY) \<Rightarrow>
            (let (point1, overrideX1) =
                   (if \<bar>px point - px p\<bar> < tt then (point\<lparr>px := px p\<rparr>, True)
                    else (point, overrideX));
                 (point2, overrideY1) =
                   (if \<bar>py point1 - py p\<bar> < tt then (point1\<lparr>py := py p\<rparr>, True)
                    else (point1, overrideY))
             in (point2, overrideX1, overrideY1))))"

definition snapToTerminal :: "mxGraph \<Rightarrow> real \<Rightarrow> cell option \<Rightarrow> snap_state \<Rightarrow> snap_state" where
  "snapToTerminal g tt terminal s =
     (case terminal of
        None \<Rightarrow> s
      | Some t \<Rightarrow>
          snapToPoint tt (Some \<lparr>px = getRoutingCenterX g t, py = getRoutingCenterY g t\<rparr>) s)"

text \<open>The loop \<open>for (var i = 0; i < this.abspoints; i++)\<close>, from \<open>i\<close> on. Its
  condition compares \<open>i\<close> with the array; no \<open>i\<close> is less than 0 or than NaN, which is
  also why the recursion ends.\<close>

function snapToAbspoints ::
  "real \<Rightarrow> int option \<Rightarrow> mxPoint option list \<Rightarrow> nat \<Rightarrow> snap_state \<Rightarrow> snap_state" where
  "snapToAbspoints tt idx a i s =
     (if js_less_array i a
      then snapToAbspoints tt idx a (Suc i)
             (if Some (int i) \<noteq> idx then snapToPoint tt (js_nth a (int i)) s else s)
      else s)"
  by pat_completeness auto
termination
  by (relation "measure (\<lambda>(tt, idx, a, i, s). 0)")
     (auto simp: js_less_array_def array_toNumber_def split: if_splits)

definition getPointForEvent :: "mxGraph \<Rightarrow> mxEdgeHandler \<Rightarrow> mxMouseEvent \<Rightarrow> mxPoint" where
  "getPointForEvent g h me =
     (let point = \<lparr>px = getGraphX me, py = getGraphY me\<rparr>;
          tt = getSnapToTerminalTolerance g;
          s0 = (point, False, False);
          s3 = (if snapToTerminals h \<and> tt > 0
                then (let s1 = snapToTerminal g tt (visibleSourceState (state h)) s0;
                          s2 = snapToTerminal g tt (visibleTargetState (state h)) s1
                      in case abspoints h of
                           None \<Rightarrow> s2
                         | Some a \<Rightarrow> snapToAbspoints tt (index h) a 0 s2)
                else s0)
      in case s3 of (p, overrideX, overrideY) \<Rightarrow>
           if isGridEnabledEvent me
           then (let p1 = (if \<not> overrideX
                           then p\<lparr>px := (snap g (px p / scale g - px (translate g)) + px (translate g)) * scale g\<rparr>
                           else p)
                 in if \<not> overrideY
                    then p1\<lparr>py := (snap g (py p1 / scale g - py (translate g)) + py (translate g)) * scale g\<rparr>
                    else p1)
           else p)"

section \<open>The preview\<close>

text \<open>
  The hook \<open>marker.isValidState\<close> that \<open>createMarker\<close> installs: it validates the
  connection of the found state with the edge's other terminal and stores the outcome in
  the handler's \<open>error\<close>.
\<close>

definition validateConnection ::
  "mxGraph \<Rightarrow> mxEdgeHandler \<Rightarrow> cell option \<Rightarrow> cell option \<Rightarrow> string option" where
  "validateConnection g h source target = getEdgeValidationError g (cell (state h)) source target"

definition isValidState :: "mxGraph \<Rightarrow> world \<Rightarrow> mxEdgeHandler \<Rightarrow> cell \<Rightarrow> bool \<times> mxEdgeHandler" where
  "isValidState g w h st =
     (let other = getTerminalPort g st (m_terminal w (cell (state h)) (\<not> isSource h)) (\<not> isSource h);
          source = (if isSource h then Some st else other);
          target = (if isSource h then other else Some st);
          h1 = h\<lparr>error := validateConnection g h source target\<rparr>
      in (error h1 = None, h1))"

text \<open>
  Modelled from the spec: \<open>mxCellMarker.process\<close> is missing from the file. It finds the
  state under the pointer through its \<open>getCell\<close> hook (here \<open>marker_getState\<close>, given
  the event and the handler's point for it), asks \<open>isValidState\<close> about a state it
  found, and keeps the state as marked, and as valid when the hook accepted it.
\<close>

definition marker_process :: "mxGraph \<Rightarrow> world \<Rightarrow> mxEdgeHandler \<Rightarrow> mxMouseEvent \<Rightarrow> mxEdgeHandler" where
  "marker_process g w h me =
     (case marker h of
        None \<Rightarrow> h
      | Some m \<Rightarrow>
          (case marker_getState g me (getPointForEvent g h me) of
             None \<Rightarrow> h\<lparr>marker := Some (m\<lparr>validState := None, markedState := None\<rparr>)\<rparr>
           | Some st \<Rightarrow>
               (case isValidState g w h st of
                  (valid, h1) \<Rightarrow>
                    h1\<lparr>marker := Some (m\<lparr>validState := (if valid then Some st else None),
                                           markedState := Some st\<rparr>)\<rparr>)))"

definition getPreviewTerminalState ::
  "mxGraph \<Rightarrow> world \<Rightarrow> mxEdgeHandler \<Rightarrow> mxMouseEvent \<Rightarrow> cell option result \<times> mxEdgeHandler" where
  "getPreviewTerminalState g w h me =
     (case constraintHandler h of
        None \<Rightarrow> (Throw TypeError, h)
      | Some ch0 \<Rightarrow>
          (let ch = constraint_update g me (isSource h) ch0;
               h1 = h\<lparr>constraintHandler := Some ch\<rparr>
           in case marker h1 of
                None \<Rightarrow> (Throw TypeError, h1)
              | Some m0 \<Rightarrow>
                  (let h2 = marker_process g w h1 me;
                       currentState = (case marker h2 of None \<Rightarrow> None | Some m \<Rightarrow> validState m);
                       h3 = (if currentFocus ch \<noteq> None \<and> currentConstraint ch \<noteq> None
                             then h2\<lparr>marker := map_option marker_reset (marker h2)\<rparr>
                             else h2);
                       result = (if currentState \<noteq> None then currentState
                                 else if currentConstraint ch \<noteq> None \<and> currentFocus ch \<noteq> None
                                 then currentFocus ch
                                 else None)
                   in (Ok result, h3))))"

definition convertPoint :: "mxGraph \<Rightarrow> world \<Rightarrow> mxEdgeHandler \<Rightarrow> mxPoint \<Rightarrow> bool \<Rightarrow> mxPoint" where
  "convertPoint g w h point gridEnabled =
     (let p1 = (if gridEnabled then \<lparr>px = snap g (px point), py = snap g (py point)\<rparr> else point);
          p2 = \<lparr>px = js_round (px p1 / scale g - px (translate g)),
                py = js_round (py p1 / scale g - py (translate g))\<rparr>
      in case parentOrigin g (m_parent w (cell (state h))) of
           None \<Rightarrow> p2
         | Some origin \<Rightarrow> \<lparr>px = px p2 - px origin, py = py p2 - py origin\<rparr>)"

text \<open>\<open>getPreviewPoints\<close> converts its argument in place when an inner point is dragged;
  the result is the list of points together with the point as the caller sees it
  afterwards.\<close>

definition getPreviewPoints ::
  "mxGraph \<Rightarrow> world \<Rightarrow> mxEdgeHandler \<Rightarrow> mxPoint
    \<Rightarrow> (mxPoint option list option \<times> mxPoint) result" where
  "getPreviewPoints g w h point =
     (case m_geometry w (cell (state h)) of
        None \<Rightarrow> Throw TypeError
      | Some geometry \<Rightarrow>
          (let pts = gpoints geometry
           in if \<not> isSource h \<and> \<not> isTarget h
              then (let point1 = convertPoint g w h point False
                    in case pts of
                         None \<Rightarrow> Ok (Some [Some point1], point1)
                       | Some ps \<Rightarrow>
                           Ok (Some (js_array_set ps
                                  ((case index h of None \<Rightarrow> 0 | Some i \<Rightarrow> i) - 1) (Some point1)),
                               point1))
              else if resetEdgesOnConnect g then Ok (None, point)
              else Ok (pts, point)))"

definition updatePreviewState ::
  "mxGraph \<Rightarrow> mxEdgeHandler \<Rightarrow> mxCellState \<Rightarrow> mxPoint \<Rightarrow> cell option
    \<Rightarrow> (mxCellState \<times> mxEdgeHandler) result" where
  "updatePreviewState g h edge point terminalState =
     (let sourceState = (if isSource h then terminalState else visibleSourceState (state h));
          targetState = (if isTarget h then terminalState else visibleTargetState (state h));
          sourceConstraint0 = getConnectionConstraint g edge sourceState True;
          targetConstraint0 = getConnectionConstraint g edge targetState False
      in case constraintHandler h of
           None \<Rightarrow> Throw TypeError
         | Some ch \<Rightarrow>
             (let constraint = (case currentConstraint ch of
                                  None \<Rightarrow> new_mxConnectionConstraint
                                | Some c \<Rightarrow> c);
                  sourceConstraint = (if isSource h then constraint else sourceConstraint0);
                  targetConstraint = (if \<not> isSource h \<and> isTarget h then constraint
                                      else targetConstraint0);
                  edge1 = (if \<not> isSource h \<or> sourceState \<noteq> None
                           then updateFixedTerminalPoint g edge sourceState True sourceConstraint
                           else edge);
                  edge2 = (if \<not> isTarget h \<or> targetState \<noteq> None
                           then updateFixedTerminalPoint g edge1 targetState False targetConstraint
                           else edge1)
              in if (isSource h \<or> isTarget h) \<and> terminalState = None
                 then (case marker h of
                         None \<Rightarrow> Throw TypeError
                       | Some m \<Rightarrow>
                           (let edge3 = setAbsoluteTerminalPoint g edge2 point (isSource h);
                                h1 = (if markedState m = None
                                      then h\<lparr>error := (if allowDanglingEdges g then None else Some [])\<rparr>
                                      else h);
                                edge4 = updatePoints g edge3 (points h1) sourceState targetState
                            in Ok (updateFloatingTerminalPoints g edge4 sourceState targetState, h1)))
                 else (let edge4 = updatePoints g edge2 (points h) sourceState targetState
                       in Ok (updateFloatingTerminalPoints g edge4 sourceState targetState, h))))"

definition setPreviewColor :: "mxEdgeHandler \<Rightarrow> string \<Rightarrow> mxEdgeHandler" where
  "setPreviewColor h color =
     (case shape h of None \<Rightarrow> h | Some sh \<Rightarrow> h\<lparr>shape := Some (sh\<lparr>stroke := color\<rparr>)\<rparr>)"

text \<open>\<open>drawPreview\<close>, without the painting: the bounds of the label handle follow the
  label; the preview shape, which must exist, takes the array \<open>this.abspoints\<close>.\<close>

definition labelBounds :: "mxGraph \<Rightarrow> mxPoint \<Rightarrow> mxRectangle" where
  "labelBounds g l =
     \<lparr>rx = js_round (px l - LABEL_HANDLE_SIZE g / 2), ry = js_round (py l - LABEL_HANDLE_SIZE g / 2),
      rwidth = LABEL_HANDLE_SIZE g, rheight = LABEL_HANDLE_SIZE g\<rparr>"

definition drawPreview :: "mxGraph \<Rightarrow> mxEdgeHandler \<Rightarrow> unit result \<times> mxEdgeHandler" where
  "drawPreview g h =
     (if isLabel h
      then (case label h of
              None \<Rightarrow> (Throw TypeError, h)
            | Some l \<Rightarrow>
                (case labelShape h of
                   None \<Rightarrow> (Throw TypeError, h)
                 | Some ls \<Rightarrow> (Ok (), h\<lparr>labelShape := Some (ls\<lparr>bounds := labelBounds g l\<rparr>)\<rparr>)))
      else (case shape h of
              None \<Rightarrow> (Throw TypeError, h)
            | Some sh \<Rightarrow> (Ok (), h)))"

text \<open>\<open>mouseMove\<close>. Consuming the event, all that the branch for Internet Explorer does,
  is not modelled.\<close>

definition mouseMove ::
  "mxGraph \<Rightarrow> world \<Rightarrow> mxEdgeHandler \<Rightarrow> mxMouseEvent \<Rightarrow> unit result \<times> mxEdgeHandler" where
  "mouseMove g w h me =
     (if index h \<noteq> None \<and> marker h \<noteq> None
      then (let point = getPointForEvent g h me
            in if isLabel h
               then (case label h of
                       None \<Rightarrow> (Throw TypeError, h)
                     | Some l \<Rightarrow> drawPreview g (h\<lparr>label := Some (l\<lparr>px := px point, py := py point\<rparr>)\<rparr>))
               else (case getPreviewPoints g w h point of
                       Throw e \<Rightarrow> (Throw e, h)
                     | Ok (pts, point1) \<Rightarrow>
                         (let h1 = h\<lparr>points := pts\<rparr>
                          in case (if isSource h1 \<or> isTarget h1 then getPreviewTerminalState g w h1 me
                                   else (Ok None, h1)) of
                               (Throw e, h2) \<Rightarrow> (Throw e, h2)
                             | (Ok terminalState, h2) \<Rightarrow>
                                 (case updatePreviewState g h2 (state h2) point1 terminalState of
                                    Throw e \<Rightarrow> (Throw e, h2)
                                  | Ok (clone, h3) \<Rightarrow>
                                      (case marker h3 of
                                         None \<Rightarrow> (Throw TypeError, h3)
                                       | Some m \<Rightarrow>
                                           drawPreview g
                                             ((setPreviewColor h3
                                                 (if error h3 = None then validColor m
                                                  else invalidColor m))
                                              \<lparr>abspoints := absolutePoints clone, abspointsShared := False,
                                                active := True\<rparr>))))))
      else (Ok (), h))"

section \<open>Redrawing, resetting and rebuilding the handler\<close>

definition centerBounds :: "mxPoint \<Rightarrow> mxRectangle \<Rightarrow> mxRectangle" where
  "centerBounds p b =
     \<lparr>rx = js_round (px p - rwidth b / 2), ry = js_round (py p - rheight b / 2),
      rwidth = rwidth b, rheight = rheight b\<rparr>"

definition redrawInnerBend :: "mxPoint option list \<Rightarrow> nat \<Rightarrow> mxShape option list \<Rightarrow> mxShape option list" where
  "redrawInnerBend a i bs =
     (case bs ! i of
        None \<Rightarrow> bs
      | Some b \<Rightarrow>
          (case js_nth a (int i) of
             Some p \<Rightarrow> bs[i := Some (b\<lparr>visibility := ''visible'', bounds := centerBounds p (bounds b)\<rparr>)]
           | None \<Rightarrow> bs[i := None]))"

definition redrawInnerBends :: "mxPoint option list \<Rightarrow> mxShape option list \<Rightarrow> mxShape option list" where
  "redrawInnerBends a bs = fold (redrawInnerBend a) [1..<length bs - 1] bs"

text \<open>\<open>redrawHandles\<close>, without the painting and the fill colours. It is called with
  \<open>this.abspoints\<close> an array.\<close>

definition redrawHandles ::
  "mxGraph \<Rightarrow> mxEdgeHandler \<Rightarrow> mxPoint option list \<Rightarrow> unit result \<times> mxEdgeHandler" where
  "redrawHandles g h a =
     (let c = cell (state h);
          l = absoluteOffset (state h);
          h1 = h\<lparr>label := Some l\<rparr>
      in case labelShape h1 of
           None \<Rightarrow> (Throw TypeError, h1)
         | Some ls \<Rightarrow>
             (let vis = (case getLabel g c of
                           None \<Rightarrow> ''hidden''
                         | Some lab \<Rightarrow> if length lab > 0 \<and> isLabelMovable g c then ''visible''
                                       else ''hidden'');
                  h2 = h1\<lparr>labelShape := Some (ls\<lparr>bounds := labelBounds g l, visibility := vis\<rparr>)\<rparr>
              in case bends h2 of
                   None \<Rightarrow> (Ok (), h2)
                 | Some bs \<Rightarrow>
                     if length bs > 0
                     then (case js_nth a 0 of
                             None \<Rightarrow> (Throw TypeError, h2)
                           | Some p0 \<Rightarrow>
                               (case bs ! 0 of
                                  None \<Rightarrow> (Throw TypeError, h2)
                                | Some b0 \<Rightarrow>
                                    (let bs1 = bs[0 := Some (b0\<lparr>bounds := centerBounds p0 (bounds b0)\<rparr>)];
                                         h3 = h2\<lparr>bends := Some bs1\<rparr>;
                                         bn = length bs1 - 1
                                     in case js_nth a (int (length a) - 1) of
                                          None \<Rightarrow> (Throw TypeError, h3)
                                        | Some pe \<Rightarrow>
                                            (case bs1 ! bn of
                                               None \<Rightarrow> (Throw TypeError, h3)
                                             | Some b \<Rightarrow>
                                                 (Ok (),
                                                  h3\<lparr>bends := Some (redrawInnerBends a
                                                    (bs1[bn := Some (b\<lparr>bounds := centerBounds pe (bounds b)\<rparr>)]))\<rparr>)))))
                     else (Ok (), h2)))"

definition redraw :: "mxGraph \<Rightarrow> world \<Rightarrow> mxEdgeHandler \<Rightarrow> unit result \<times> mxEdgeHandler" where
  "redraw g w h =
     (case absolutePoints (state h) of
        None \<Rightarrow> (Throw TypeError, h)
      | Some a \<Rightarrow>
          (case redrawHandles g (h\<lparr>abspoints := Some a, abspointsShared := True\<rparr>) a of
             (Throw e, h2) \<Rightarrow> (Throw e, h2)
           | (Ok u, h2) \<Rightarrow>
               (case m_geometry w (cell (state h2)) of
                  None \<Rightarrow> (Throw TypeError, h2)
                | Some geo \<Rightarrow>
                    drawPreview g
                      (case bends h2 of
                         None \<Rightarrow> h2
                       | Some bs \<Rightarrow>
                           if length bs > 0
                           then (case gpoints geo of
                                   None \<Rightarrow> h2
                                 | Some pts \<Rightarrow>
                                     h2\<lparr>points := Some
                                       (fold (\<lambda>i ps. if bs ! i \<noteq> None \<and> js_nth a (int i) \<noteq> None
                                                     then js_array_set ps (int i - 1) (js_nth pts (int i - 1))
                                                     else ps)
                                          [1..<length bs - 1]
                                          (case points h2 of None \<Rightarrow> [] | Some ps \<Rightarrow> ps))\<rparr>)
                           else h2))))"

definition reset :: "mxGraph \<Rightarrow> world \<Rightarrow> mxEdgeHandler \<Rightarrow> unit result \<times> mxEdgeHandler" where
  "reset g w h =
     (let h1 = h\<lparr>error := None, index := None, label := None, points := None, active := False,
                 isLabel := False, isSource := False, isTarget := False\<rparr>
      in case marker h1 of
           None \<Rightarrow> (Throw TypeError, h1)
         | Some m \<Rightarrow>
             (let h2 = h1\<lparr>marker := Some (marker_reset m)\<rparr>
              in case constraintHandler h2 of
                   None \<Rightarrow> (Throw TypeError, h2)
                 | Some ch \<Rightarrow>
                     redraw g w
                       (setPreviewColor (h2\<lparr>constraintHandler := Some (constraint_reset ch)\<rparr>)
                          (EDGE_SELECTION_COLOR g))))"

definition destroy :: "mxEdgeHandler \<Rightarrow> mxEdgeHandler" where
  "destroy h =
     h\<lparr>marker := None, shape := None, labelShape := None, constraintHandler := None, bends := None\<rparr>"

text \<open>\<open>createBends\<close>: one step of its loop, on the bends and the points made so far, with
  \<open>n\<close> the number of absolute points.\<close>

definition createBend ::
  "mxGraph \<Rightarrow> cell \<Rightarrow> nat \<Rightarrow> nat \<Rightarrow> mxShape option list \<times> mxPoint option list
    \<Rightarrow> mxShape option list \<times> mxPoint option list" where
  "createBend g c n i acc =
     (case acc of (bs, ps) \<Rightarrow>
        (let terminal = (i = 0 \<or> int i = int n - 1)
         in if terminal \<or> isCellBendable g c
            then (if terminal then (bs @ [Some (createHandleShape g i)], ps)
                  else (bs @ [Some ((createHandleShape g i)\<lparr>visibility := ''hidden''\<rparr>)],
                        ps @ [Some \<lparr>px = 0, py = 0\<rparr>]))
            else (bs, ps)))"

text \<open>\<open>init\<close>, without the painting: \<open>createsBends\<close> stands for the test of the selection
  count, and the shapes with their DOM nodes come from \<open>createHandleShape\<close> and
  \<open>createLabelShape\<close>.\<close>

definition init :: "mxGraph \<Rightarrow> world \<Rightarrow> mxEdgeHandler \<Rightarrow> unit result \<times> mxEdgeHandler" where
  "init g w h =
     (let h1 = h\<lparr>marker := Some \<lparr>validState = None, markedState = None,
                                  validColor = DEFAULT_VALID_COLOR g,
                                  invalidColor = DEFAULT_INVALID_COLOR g\<rparr>,
                 constraintHandler := Some \<lparr>currentFocus = None, currentConstraint = None\<rparr>,
                 points := Some [],
                 abspoints := absolutePoints (state h),
                 abspointsShared := True,
                 shape := Some \<lparr>stroke = EDGE_SELECTION_COLOR g\<rparr>\<rparr>;
          finish = (\<lambda>h2. redraw g w (h2\<lparr>label := Some (absoluteOffset (state h2)),
                                        labelShape := Some (createLabelShape g)\<rparr>))
      in if createsBends g
         then (case abspoints h1 of
                 None \<Rightarrow> (Throw TypeError, h1)
               | Some a \<Rightarrow>
                   (case fold (createBend g (cell (state h1)) (length a)) [0..<length a] ([], []) of
                      (bs, ps) \<Rightarrow> finish (h1\<lparr>bends := Some bs, points := Some ps\<rparr>)))
         else finish h1)"

section \<open>Committing a gesture\<close>

definition moveLabel ::
  "mxGraph \<Rightarrow> world \<Rightarrow> mxCellState \<Rightarrow> real \<Rightarrow> real \<Rightarrow> unit result \<times> world" where
  "moveLabel g w edgeState x y =
     (case m_geometry w (cell edgeState) of
        None \<Rightarrow> (Ok (), w)
      | Some geometry \<Rightarrow>
          (let pt = getRelativePoint g edgeState x y;
               geometry1 = geometry\<lparr>gx := px pt, gy := py pt\<rparr>;
               geometry2 = geometry1\<lparr>goffset := Some \<lparr>px = 0, py = 0\<rparr>\<rparr>;
               pt2 = getPoint g edgeState geometry2;
               geometry3 = geometry2\<lparr>goffset :=
                 Some \<lparr>px = (x - px pt2) / scale g, py = (y - py pt2) / scale g\<rparr>\<rparr>
           in model_setGeometry g (cell edgeState) geometry3 w))"

text \<open>The body of the \<open>try\<close> of \<open>connect\<close>; the result is the edge that \<open>connect\<close>
  returns when nothing was thrown.\<close>

definition connect_body ::
  "mxGraph \<Rightarrow> mxEdgeHandler \<Rightarrow> world \<Rightarrow> cell \<Rightarrow> cell option \<Rightarrow> cell \<Rightarrow> bool \<Rightarrow> bool
    \<Rightarrow> cell result \<times> world" where
  "connect_body g h w edge parent terminal source isClone =
     (let finish = (\<lambda>e w1.
            case constraintHandler h of
              None \<Rightarrow> (Throw TypeError, w1)
            | Some ch \<Rightarrow>
                (let constraint = (case currentConstraint ch of
                                     None \<Rightarrow> new_mxConnectionConstraint
                                   | Some c \<Rightarrow> c)
                 in case connectCell g e (Some terminal) source (Some constraint) w1 of
                      (Throw err, w2) \<Rightarrow> (Throw err, w2)
                    | (Ok u, w2) \<Rightarrow> (Ok e, w2)))
      in if isClone
         then (case cell_clone edge w of
                 (clone, w1) \<Rightarrow>
                   (case model_add g parent clone (getChildCount w1 parent) w1 of
                      (Throw err, w2) \<Rightarrow> (Throw err, w2)
                    | (Ok u, w2) \<Rightarrow>
                        (case connectCell g clone (m_terminal w2 edge (\<not> source)) (\<not> source) None w2 of
                           (Throw err, w3) \<Rightarrow> (Throw err, w3)
                         | (Ok u, w3) \<Rightarrow> finish clone w3)))
         else finish edge w)"

definition connect ::
  "mxGraph \<Rightarrow> mxEdgeHandler \<Rightarrow> world \<Rightarrow> cell \<Rightarrow> cell \<Rightarrow> bool \<Rightarrow> bool \<Rightarrow> cell result \<times> world" where
  "connect g h w edge terminal source isClone =
     (let parent = m_parent w edge;
          w1 = beginUpdate w
      in case connect_body g h w1 edge parent terminal source isClone of
           (r, w2) \<Rightarrow> (r, endUpdate w2))"

definition changeTerminalPoint ::
  "mxGraph \<Rightarrow> world \<Rightarrow> cell \<Rightarrow> mxPoint \<Rightarrow> bool \<Rightarrow> unit result \<times> world" where
  "changeTerminalPoint g w edge point source =
     (case m_geometry w edge of
        None \<Rightarrow> (Ok (), w)
      | Some geo \<Rightarrow>
          (let w1 = beginUpdate w
           in case (case model_setGeometry g edge (setTerminalPoint geo point source) w1 of
                      (Throw err, w2) \<Rightarrow> (Throw err, w2)
                    | (Ok u, w2) \<Rightarrow>
                        connectCell g edge None source (Some new_mxConnectionConstraint) w2) of
                (r, w3) \<Rightarrow> (r, endUpdate w3)))"

definition changePoints ::
  "mxGraph \<Rightarrow> world \<Rightarrow> cell \<Rightarrow> mxPoint option list option \<Rightarrow> unit result \<times> world" where
  "changePoints g w edge pts =
     (case m_geometry w edge of
        None \<Rightarrow> (Ok (), w)
      | Some geo \<Rightarrow> model_setGeometry g edge (geo\<lparr>gpoints := pts\<rparr>) w)"

text \<open>\<open>a.splice(i, 0, v)\<close> and \<open>a.splice(i, 1)\<close> for an index that is not negative.\<close>

definition splice_insert :: "'a list \<Rightarrow> nat \<Rightarrow> 'a \<Rightarrow> 'a list" where
  "splice_insert a i v = take i a @ [v] @ drop i a"

definition splice_remove :: "'a list \<Rightarrow> nat \<Rightarrow> 'a list" where
  "splice_remove a i = take i a @ drop (Suc i) a"

definition addPointAt ::
  "mxGraph \<Rightarrow> world \<Rightarrow> mxEdgeHandler \<Rightarrow> mxCellState \<Rightarrow> real \<Rightarrow> real
    \<Rightarrow> unit result \<times> mxEdgeHandler \<times> world" where
  "addPointAt g w h st x y =
     (case m_geometry w (cell st) of
        None \<Rightarrow> (Ok (), h, w)
      | Some geo \<Rightarrow>
          (let pt = \<lparr>px = x, py = y\<rparr>;
               i = findNearestSegment g st ((px pt + px (translate g)) * scale g)
                     ((py pt + py (translate g)) * scale g);
               geo1 = (case gpoints geo of
                         None \<Rightarrow> geo\<lparr>gpoints := Some [Some pt]\<rparr>
                       | Some ps \<Rightarrow> geo\<lparr>gpoints := Some (splice_insert ps i (Some pt))\<rparr>)
           in case model_setGeometry g (cell st) geo1 w of
                (Throw err, w1) \<Rightarrow> (Throw err, h, w1)
              | (Ok u, w1) \<Rightarrow> (case init g w1 (destroy h) of (r, h1) \<Rightarrow> (r, h1, w1))))"

definition removePoint ::
  "mxGraph \<Rightarrow> world \<Rightarrow> mxEdgeHandler \<Rightarrow> mxCellState \<Rightarrow> int
    \<Rightarrow> unit result \<times> mxEdgeHandler \<times> world" where
  "removePoint g w h st i =
     (if i > 0
      then (case abspoints h of
              None \<Rightarrow> (Throw TypeError, h, w)
            | Some a \<Rightarrow>
                if i < int (length a) - 1
                then (case m_geometry w (cell (state h)) of
                        None \<Rightarrow> (Ok (), h, w)
                      | Some geo \<Rightarrow>
                          (case gpoints geo of
                             None \<Rightarrow> (Ok (), h, w)
                           | Some ps \<Rightarrow>
                               (case model_setGeometry g (cell st)
                                       (geo\<lparr>gpoints := Some (splice_remove ps (nat (i - 1)))\<rparr>) w of
                                  (Throw err, w1) \<Rightarrow> (Throw err, h, w1)
                                | (Ok u, w1) \<Rightarrow>
                                    (case init g w1 (destroy h) of (r, h1) \<Rightarrow> (r, h1, w1)))))
                else (Ok (), h, w))
      else (Ok (), h, w))"

text \<open>
  \<open>mouseUp\<close>. \<open>commit\<close> is the branch taken when the pointer has moved: it gives the
  edge to select afterwards, the handler and the world. Consuming the event is not
  modelled, nor are the listeners of the model, which may destroy the handler while a
  change is committed. Where an end is dropped in the void, the end point in
  \<open>this.abspoints\<close> is converted in place, which changes the point in
  \<open>this.state.absolutePoints\<close> too when the two arrays share their points.
\<close>

definition danglingPoint :: "mxGraph \<Rightarrow> world \<Rightarrow> cell \<Rightarrow> mxPoint \<Rightarrow> mxPoint" where
  "danglingPoint g w edge pt =
     (let p1 = \<lparr>px = px pt / scale g - px (translate g), py = py pt / scale g - py (translate g)\<rparr>;
          p2 = (case parentOrigin g (m_parent w edge) of
                  None \<Rightarrow> p1
                | Some origin \<Rightarrow> \<lparr>px = px p1 - px origin, py = py p1 - py origin\<rparr>)
      in \<lparr>px = px p2 - panDx g / scale g, py = py p2 - panDy g / scale g\<rparr>)"

text \<open>The assignments to \<open>pt.x\<close> and \<open>pt.y\<close> of the point \<open>pt\<close> at the index \<open>i\<close> of
  \<open>this.abspoints\<close>: the point changes in every array that holds it.\<close>

definition assignPoint :: "mxEdgeHandler \<Rightarrow> mxPoint option list \<Rightarrow> nat \<Rightarrow> mxPoint \<Rightarrow> mxEdgeHandler" where
  "assignPoint h a i pt =
     h\<lparr>abspoints := Some (a[i := Some pt]),
       state := (if abspointsShared h
                 then (state h)\<lparr>absolutePoints :=
                        map_option (\<lambda>sa. sa[i := Some pt]) (absolutePoints (state h))\<rparr>
                 else state h)\<rparr>"

definition commit ::
  "mxGraph \<Rightarrow> world \<Rightarrow> mxEdgeHandler \<Rightarrow> mxMouseEvent \<Rightarrow> cell result \<times> mxEdgeHandler \<times> world" where
  "commit g w h me =
     (let edge = cell (state h)
      in case error h of
           Some err \<Rightarrow>
             if length err > 0 then (Ok edge, h, log (ValidationAlert err) w) else (Ok edge, h, w)
         | None \<Rightarrow>
             if isLabel h
             then (case label h of
                     None \<Rightarrow> (Throw TypeError, h, w)
                   | Some l \<Rightarrow>
                       (case moveLabel g w (state h) (px l) (py l) of
                          (Throw e, w1) \<Rightarrow> (Throw e, h, w1)
                        | (Ok u, w1) \<Rightarrow> (Ok edge, h, w1)))
             else if isSource h \<or> isTarget h
             then (case constraintHandler h of
                     None \<Rightarrow> (Throw TypeError, h, w)
                   | Some ch \<Rightarrow>
                       (case marker h of
                          None \<Rightarrow> (Throw TypeError, h, w)
                        | Some m \<Rightarrow>
                            (let terminal0 = (if currentConstraint ch \<noteq> None \<and> currentFocus ch \<noteq> None
                                              then currentFocus ch else None);
                                 terminal = (if terminal0 = None \<and> validState m \<noteq> None
                                             then validState m else terminal0)
                             in case terminal of
                                  Some t \<Rightarrow>
                                    (case connect g h w edge t (isSource h)
                                            (isCloneEvent me \<and> cloneEnabled h \<and> isCellsCloneable g) of
                                       (Throw e, w1) \<Rightarrow> (Throw e, h, w1)
                                     | (Ok edge1, w1) \<Rightarrow> (Ok edge1, h, w1))
                                | None \<Rightarrow>
                                    if allowDanglingEdges g
                                    then (case abspoints h of
                                            None \<Rightarrow> (Throw TypeError, h, w)
                                          | Some a \<Rightarrow>
                                              (let i = (if isSource h then 0 else int (length a) - 1)
                                               in case js_nth a i of
                                                    None \<Rightarrow> (Throw TypeError, h, w)
                                                  | Some pt0 \<Rightarrow>
                                                      (let pt = danglingPoint g w edge pt0;
                                                           h1 = assignPoint h a (nat i) pt
                                                       in case changeTerminalPoint g w edge pt (isSource h) of
                                                            (Throw e, w1) \<Rightarrow> (Throw e, h1, w1)
                                                          | (Ok u, w1) \<Rightarrow> (Ok edge, h1, w1))))
                                    else (Ok edge, h, w))))
             else if active h
             then (case changePoints g w edge (points h) of
                     (Throw e, w1) \<Rightarrow> (Throw e, h, w1)
                   | (Ok u, w1) \<Rightarrow> (Ok edge, h, w1))
             else (Ok edge, h, log (Revalidate edge) (log (Invalidate edge) w)))"

definition mouseUp ::
  "mxGraph \<Rightarrow> world \<Rightarrow> mxEdgeHandler \<Rightarrow> mxMouseEvent \<Rightarrow> unit result \<times> mxEdgeHandler \<times> world" where
  "mouseUp g w h me =
     (if index h \<noteq> None \<and> marker h \<noteq> None
      then (case (if Some (getX me) \<noteq> startX h \<or> Some (getY me) \<noteq> startY h
                  then commit g w h me
                  else (Ok (cell (state h)), h, w)) of
              (Throw e, h1, w1) \<Rightarrow> (Throw e, h1, w1)
            | (Ok edge, h1, w1) \<Rightarrow>
                if marker h1 \<noteq> None
                then (case reset g w1 h1 of
                        (Throw e, h2) \<Rightarrow> (Throw e, h2, w1)
                      | (Ok u, h2) \<Rightarrow>
                          if edge \<noteq> cell (state h2) then (Ok (), h2, log (SetSelectionCell edge) w1)
                          else (Ok (), h2, w1))
                else (Ok (), h1, w1))
      else (Ok (), h, w))"

section \<open>Notions used in the statements\<close>

text \<open>A handle qualifies for an event when \<open>checkShape\<close> gets past its first test: the
  shape exists, is displayed and visible, and is the source of the event or has bounds
  that intersect the tolerance rectangle.\<close>

definition qualifies :: "mxGraph \<Rightarrow> mxMouseEvent \<Rightarrow> mxRectangle option \<Rightarrow> mxShape option \<Rightarrow> bool" where
  "qualifies g me hit shp =
     (case shp of
        None \<Rightarrow> False
      | Some s \<Rightarrow>
          display s \<noteq> ''none'' \<and> visibility s \<noteq> ''hidden'' \<and>
          (me_isSource me (Some s) \<or>
           (case hit of None \<Rightarrow> False | Some r \<Rightarrow> intersects g (bounds s) r)))"

text \<open>The squared distance of the pointer from the centre of a handle.\<close>

definition distSq :: "mxMouseEvent \<Rightarrow> mxShape option \<Rightarrow> real" where
  "distSq me shp =
     (case shp of
        None \<Rightarrow> 0
      | Some s \<Rightarrow>
          (getGraphX me - getCenterX (bounds s)) * (getGraphX me - getCenterX (bounds s)) +
          (getGraphY me - getCenterY (bounds s)) * (getGraphY me - getCenterY (bounds s)))"

definition beats :: "real option \<Rightarrow> real \<Rightarrow> bool" where
  "beats m d = (case m of None \<Rightarrow> True | Some d' \<Rightarrow> d \<le> d')"

definition bendList :: "mxEdgeHandler \<Rightarrow> mxShape option list" where
  "bendList h = (case bends h of None \<Rightarrow> [] | Some bs \<Rightarrow> bs)"

text \<open>The calls made between two worlds, and what it means for them to be bracketed:
  every call that changes the model is made at a positive nesting depth of
  \<open>beginUpdate\<close>, and every \<open>beginUpdate\<close> is closed by an \<open>endUpdate\<close>.\<close>

definition calls_between :: "world \<Rightarrow> world \<Rightarrow> call list" where
  "calls_between w w' = drop (length (trace w)) (trace w')"

fun is_mutation :: "call \<Rightarrow> bool" where
  "is_mutation (SetGeometry c geo) = True"
| "is_mutation (Add p c i) = True"
| "is_mutation (ConnectCell e t s c) = True"
| "is_mutation c = False"

fun bracketed_from :: "nat \<Rightarrow> call list \<Rightarrow> bool" where
  "bracketed_from d [] = (d = 0)"
| "bracketed_from d (BeginUpdate # cs) = bracketed_from (Suc d) cs"
| "bracketed_from d (EndUpdate # cs) = (d > 0 \<and> bracketed_from (d - 1) cs)"
| "bracketed_from d (c # cs) = ((is_mutation c \<longrightarrow> d > 0) \<and> bracketed_from d cs)"

definition bracketed :: "call list \<Rightarrow> bool" where
  "bracketed cs = bracketed_from 0 cs"

text \<open>Snapping one coordinate to the centres of the source and the target terminal, in
  this order: a centre closer than the tolerance to the coordinate as it then is replaces
  it. The flag says whether the coordinate was replaced.\<close>

definition snap_axis :: "real \<Rightarrow> real \<Rightarrow> real option \<Rightarrow> real option \<Rightarrow> real \<times> bool" where
  "snap_axis tt v src tgt =
     (let (v1, o1) = (case src of
                        None \<Rightarrow> (v, False)
                      | Some c \<Rightarrow> if \<bar>v - c\<bar> < tt then (c, True) else (v, False))
      in case tgt of
           None \<Rightarrow> (v1, o1)
         | Some c \<Rightarrow> if \<bar>v1 - c\<bar> < tt then (c, True) else (v1, o1))"

definition grid_coord :: "mxGraph \<Rightarrow> real \<Rightarrow> real \<Rightarrow> real" where
  "grid_coord g t v = (snap g (v / scale g - t) + t) * scale g"

section \<open>A small graph for the concrete cases\<close>

text \<open>An edge, cell 0, from cell 1 to cell 2, with two waypoints; a graph with a grid of
  10, scale 1 and no translation, in which no call to the model fails.\<close>

definition ex_intersects :: "mxRectangle \<Rightarrow> mxRectangle \<Rightarrow> bool" where
  "ex_intersects a b =
     (rx a < rx b + rwidth b \<and> rx b < rx a + rwidth a \<and>
      ry a < ry b + rheight b \<and> ry b < ry a + rheight a)"

definition ex_handle :: "nat \<Rightarrow> real \<Rightarrow> real \<Rightarrow> mxShape" where
  "ex_handle n cx cy =
     \<lparr>node = n, bounds = \<lparr>rx = cx - 3, ry = cy - 3, rwidth = 6, rheight = 6\<rparr>,
      display = [], visibility = ''visible''\<rparr>"

definition ex_graph :: mxGraph where
  "ex_graph =
     \<lparr>gridSize = 10, scale = 1, translate = \<lparr>px = 0, py = 0\<rparr>, panDx = 0, panDy = 0,
      allowDanglingEdges = False, resetEdgesOnConnect = False, isCellsCloneable = True,
      IS_IE = False, LABEL_HANDLE_SIZE = 6, EDGE_SELECTION_COLOR = ''#00FF00'',
      snap = (\<lambda>v. 10 * js_round (v / 10)),
      intersects = ex_intersects,
      getRoutingCenterX = (\<lambda>c. if c = 1 then 0 else 3),
      getRoutingCenterY = (\<lambda>c. if c = 1 then 0 else 1000),
      parentOrigin = (\<lambda>p. None),
      getRelativePoint = (\<lambda>st vx vy. \<lparr>px = 0, py = 0\<rparr>),
      getPoint = (\<lambda>st geo. \<lparr>px = 150, py = 0\<rparr>),
      findNearestSegment = (\<lambda>st vx vy. 0),
      getLabel = (\<lambda>c. Some ''e''),
      isLabelMovable = (\<lambda>c. True),
      isTerminalPointMovable = (\<lambda>c s. True),
      isCellDisconnectable = (\<lambda>c t s. True),
      getEdgeValidationError = (\<lambda>e s t. None),
      getTerminalPort = (\<lambda>st t s. t),
      getConnectionConstraint = (\<lambda>e t s. new_mxConnectionConstraint),
      updateFixedTerminalPoint = (\<lambda>e t s c. e),
      setAbsoluteTerminalPoint = (\<lambda>e p s. e),
      updatePoints = (\<lambda>e ps s t. e),
      updateFloatingTerminalPoints = (\<lambda>e s t. e),
      constraint_update = (\<lambda>me s ch. ch),
      isCellBendable = (\<lambda>c. True),
      createsBends = True,
      createHandleShape = (\<lambda>i. ex_handle (10 + i) 0 0),
      createLabelShape = ex_handle 9 0 0,
      DEFAULT_VALID_COLOR = ''#00FF00'',
      DEFAULT_INVALID_COLOR = ''#FF0000'',
      marker_getState = (\<lambda>me p. None),
      fails = (\<lambda>w c. False)\<rparr>"

definition ex_geometry :: mxGeometry where
  "ex_geometry =
     \<lparr>gx = 0, gy = 0, gpoints = Some [Some \<lparr>px = 100, py = 0\<rparr>, Some \<lparr>px = 200, py = 0\<rparr>],
      goffset = None, sourcePoint = None, targetPoint = None\<rparr>"

definition ex_world :: world where
  "ex_world =
     \<lparr>ncells = 3,
      m_geometry = (\<lambda>c. if c = 0 then Some ex_geometry else None),
      m_terminal = (\<lambda>c s. if c = 0 then (if s then Some 1 else Some 2) else None),
      m_parent = (\<lambda>c. None),
      m_children = (\<lambda>c. []),
      updateLevel = 0,
      trace = []\<rparr>"

definition ex_abspoints :: "mxPoint option list" where
  "ex_abspoints =
     [Some \<lparr>px = 0, py = 0\<rparr>, Some \<lparr>px = 100, py = 0\<rparr>, Some \<lparr>px = 200, py = 0\<rparr>,
      Some \<lparr>px = 300, py = 0\<rparr>]"

text \<open>The handler of the edge, idle.\<close>

definition ex_handler :: mxEdgeHandler where
  "ex_handler =
     \<lparr>state = \<lparr>cell = 0, absolutePoints = Some ex_abspoints,
                absoluteOffset = \<lparr>px = 150, py = 0\<rparr>, text_shape = None,
                visibleSourceState = Some 1, visibleTargetState = Some 2\<rparr>,
      marker = Some \<lparr>validState = None, markedState = None,
                     validColor = ''#00FF00'', invalidColor = ''#FF0000''\<rparr>,
      constraintHandler = Some \<lparr>currentFocus = None, currentConstraint = None\<rparr>,
      error = None,
      shape = Some \<lparr>stroke = ''#00FF00''\<rparr>,
      bends = Some [Some (ex_handle 10 0 0), Some (ex_handle 11 100 0),
                    Some (ex_handle 12 200 0), Some (ex_handle 13 300 0)],
      labelShape = Some (ex_handle 9 150 0),
      points = Some [Some \<lparr>px = 100, py = 0\<rparr>, Some \<lparr>px = 200, py = 0\<rparr>],
      abspoints = Some ex_abspoints,
      abspointsShared = True,
      label = Some \<lparr>px = 150, py = 0\<rparr>,
      index = None, startX = None, startY = None,
      isSource = False, isTarget = False, isLabel = False, active = False,
      cloneEnabled = True, addEnabled = False, removeEnabled = False,
      allowHandleBoundsCheck = True, snapToTerminals = False, tolerance = 0\<rparr>"

definition ex_event :: "real \<Rightarrow> real \<Rightarrow> mxMouseEvent" where
  "ex_event vx vy =
     \<lparr>getX = vx, getY = vy, getGraphX = vx, getGraphY = vy, isMouseEvent = True,
      source_node = 0, isGridEnabledEvent = False, isCloneEvent = False, isShiftDown = False\<rparr>"

text \<open>A click on the label text of the edge, node 7, where the label handle lies under
  the pointer and a bend two pixels to its right.\<close>

definition ex_text_handler :: mxEdgeHandler where
  "ex_text_handler =
     ex_handler\<lparr>state := (state ex_handler)\<lparr>text_shape := Some (ex_handle 7 150 0)\<rparr>,
                bends := Some [Some (ex_handle 10 0 0), Some (ex_handle 11 152 0),
                               Some (ex_handle 13 300 0)]\<rparr>"

definition ex_text_event :: mxMouseEvent where
  "ex_text_event = (ex_event 150 0)\<lparr>source_node := 7\<rparr>"

text \<open>A drag of the source end over cell 1, which the marker accepts, while the
  constraint handler has found a constraint on cell 2.\<close>

definition ex_constraint_graph :: mxGraph where
  "ex_constraint_graph =
     ex_graph\<lparr>constraint_update :=
                (\<lambda>me s ch. \<lparr>currentFocus = Some 2,
                             currentConstraint = Some new_mxConnectionConstraint\<rparr>),
              marker_getState := (\<lambda>me p. Some 1)\<rparr>"

definition ex_source_drag :: mxEdgeHandler where
  "ex_source_drag = ex_handler\<lparr>index := Some 0, isSource := True, startX := Some 0, startY := Some 0\<rparr>"

text \<open>A drag of the bend 1 with snapping to the terminals switched on; the bend 2 lies at
  the height 52.\<close>

definition ex_snap_handler :: mxEdgeHandler where
  "ex_snap_handler =
     ex_handler\<lparr>snapToTerminals := True, index := Some 1,
                abspoints := Some [Some \<lparr>px = 0, py = 0\<rparr>, Some \<lparr>px = 100, py = 50\<rparr>,
                                   Some \<lparr>px = 200, py = 52\<rparr>, Some \<lparr>px = 300, py = 0\<rparr>]\<rparr>"



section \<open>Releasing the pointer\<close>

lemma setPreviewColor_fields [simp]:
  "state (setPreviewColor h c) = state h"
  "error (setPreviewColor h c) = error h"
  "marker (setPreviewColor h c) = marker h"
  "isLabel (setPreviewColor h c) = isLabel h"
  "points (setPreviewColor h c) = points h"
  "index (setPreviewColor h c) = index h"
  "startX (setPreviewColor h c) = startX h"
  "startY (setPreviewColor h c) = startY h"
  "isSource (setPreviewColor h c) = isSource h"
  "isTarget (setPreviewColor h c) = isTarget h"
  "labelShape (setPreviewColor h c) = labelShape h"
  "label (setPreviewColor h c) = label h"
  "bends (setPreviewColor h c) = bends h"
  "constraintHandler (setPreviewColor h c) = constraintHandler h"
  "shape (setPreviewColor h c) = map_option (\<lambda>sh. sh\<lparr>stroke := c\<rparr>) (shape h)"
  by (simp_all add: setPreviewColor_def split: option.splits)

lemma drawPreview_fields:
  "state (snd (drawPreview g h)) = state h"
  "error (snd (drawPreview g h)) = error h"
  "points (snd (drawPreview g h)) = points h"
  "index (snd (drawPreview g h)) = index h"
  "marker (snd (drawPreview g h)) = marker h"
  "startX (snd (drawPreview g h)) = startX h"
  "startY (snd (drawPreview g h)) = startY h"
  "isSource (snd (drawPreview g h)) = isSource h"
  "isTarget (snd (drawPreview g h)) = isTarget h"
  "isLabel (snd (drawPreview g h)) = isLabel h"
  "active (snd (drawPreview g h)) = active h"
  by (simp_all add: drawPreview_def split: option.splits)

lemma redrawHandles_state: "state (snd (redrawHandles g h a)) = state h"
  by (simp add: redrawHandles_def Let_def split: option.splits)

lemma redraw_state: "state (snd (redraw g w h)) = state h"
proof (cases "absolutePoints (state h)")
  case None
  then show ?thesis by (simp add: redraw_def)
next
  case (Some a)
  obtain r2 h2 where rh: "redrawHandles g (h\<lparr>abspoints := Some a, abspointsShared := True\<rparr>) a = (r2, h2)"
    by (cases "redrawHandles g (h\<lparr>abspoints := Some a, abspointsShared := True\<rparr>) a")
  from redrawHandles_state [of g "h\<lparr>abspoints := Some a, abspointsShared := True\<rparr>" a] rh
  have st: "state h2 = state h" by simp
  show ?thesis
    using Some rh st
    by (cases r2)
       (simp_all add: redraw_def drawPreview_fields split: option.splits)
qed

lemma reset_state: "state (snd (reset g w h)) = state h"
  by (simp add: reset_def Let_def redraw_state split: option.splits)

text \<open>
  Claim C1. A pointer-up at the coordinates of the pointer-down does nothing but reset
  the handler: the model, and the trace of the calls made to it, to the graph and to the
  view, are as before, so that no operation that commits a change has made a call.
\<close>

theorem mouseUp_without_movement:
  assumes "startX h = Some (getX me)" and "startY h = Some (getY me)"
  shows "snd (snd (mouseUp g w h me)) = w \<and>
         mouseUp g w h me =
           (if index h \<noteq> None \<and> marker h \<noteq> None
            then (case reset g w h of (r, h2) \<Rightarrow> (r, h2, w))
            else (Ok (), h, w))"
proof (cases "index h \<noteq> None \<and> marker h \<noteq> None")
  case False
  then show ?thesis by (auto simp: mouseUp_def)
next
  case True
  obtain r h2 where rs: "reset g w h = (r, h2)" by (cases "reset g w h")
  from reset_state [of g w h] rs have st: "state h2 = state h" by simp
  from True assms rs st show ?thesis
    by (cases r) (auto simp: mouseUp_def)
qed

theorem mouseUp_without_movement_witness:
  "startX (start ex_graph ex_world ex_handler 100 0 1) = Some (getX (ex_event 100 0)) \<and>
   startY (start ex_graph ex_world ex_handler 100 0 1) = Some (getY (ex_event 100 0)) \<and>
   index (start ex_graph ex_world ex_handler 100 0 1) = Some 1 \<and>
   snd (snd (mouseUp ex_graph ex_world (start ex_graph ex_world ex_handler 100 0 1)
               (ex_event 100 0))) = ex_world"
proof -
  have a: "startX (start ex_graph ex_world ex_handler 100 0 1) = Some (getX (ex_event 100 0))"
    and b: "startY (start ex_graph ex_world ex_handler 100 0 1) = Some (getY (ex_event 100 0))"
    and c: "index (start ex_graph ex_world ex_handler 100 0 1) = Some 1"
    by (simp_all add: start_def ex_handler_def ex_event_def Let_def)
  have d: "snd (snd (mouseUp ex_graph ex_world (start ex_graph ex_world ex_handler 100 0 1)
               (ex_event 100 0))) = ex_world"
    using mouseUp_without_movement [OF a b, of ex_graph ex_world] by (rule conjunct1)
  from a b c d show ?thesis by (intro conjI)
qed

section \<open>The calls of the commit operations\<close>

lemma trace_log [simp]: "trace (log c w) = trace w @ [c]"
  by (simp add: log_def)

lemma updateLevel_log [simp]: "updateLevel (log c w) = updateLevel w"
  by (simp add: log_def)

lemma model_setGeometry_calls:
  "model_setGeometry g c geo w = (r, w') \<Longrightarrow>
   trace w' = trace w @ [SetGeometry c geo] \<and> updateLevel w' = updateLevel w"
  by (auto simp: model_setGeometry_def split: if_splits)

lemma model_add_calls:
  "model_add g p c i w = (r, w') \<Longrightarrow>
   trace w' = trace w @ [Add p c i] \<and> updateLevel w' = updateLevel w"
  by (auto simp: model_add_def split: if_splits option.splits)

lemma connectCell_calls:
  "connectCell g e t s k w = (r, w') \<Longrightarrow>
   trace w' = trace w @ [ConnectCell e t s k] \<and> updateLevel w' = updateLevel w"
  by (auto simp: connectCell_def split: if_splits)

lemma cell_clone_calls:
  "cell_clone c w = (n, w') \<Longrightarrow> trace w' = trace w \<and> updateLevel w' = updateLevel w"
  by (auto simp: cell_clone_def Let_def)

lemma connect_body_calls:
  "connect_body g h w edge parent terminal source isClone = (r, w') \<Longrightarrow>
   \<exists>ms. trace w' = trace w @ ms \<and> (\<forall>c\<in>set ms. is_mutation c) \<and>
        updateLevel w' = updateLevel w"
proof (cases isClone)
  case False
  assume "connect_body g h w edge parent terminal source isClone = (r, w')"
  with False show ?thesis
    by (auto simp: connect_body_def Let_def
        split: option.splits prod.splits result.splits dest!: connectCell_calls)
next
  case True
  assume run: "connect_body g h w edge parent terminal source isClone = (r, w')"
  obtain clone w1 where c: "cell_clone edge w = (clone, w1)" by (cases "cell_clone edge w")
  obtain r2 w2 where a: "model_add g parent clone (getChildCount w1 parent) w1 = (r2, w2)"
    by (cases "model_add g parent clone (getChildCount w1 parent) w1")
  obtain r3 w3 where
    k: "connectCell g clone (m_terminal w2 edge (\<not> source)) (\<not> source) None w2 = (r3, w3)"
    by (cases "connectCell g clone (m_terminal w2 edge (\<not> source)) (\<not> source) None w2")
  note c1 = cell_clone_calls [OF c] and a1 = model_add_calls [OF a]
    and k1 = connectCell_calls [OF k]
  show ?thesis
  proof (cases r2)
    case (Throw e)
    with run True c a have "w' = w2" by (simp add: connect_body_def)
    with c1 a1 show ?thesis by simp
  next
    case ok2: (Ok u2)
    show ?thesis
    proof (cases r3)
      case (Throw e)
      with run True c a k ok2 have "w' = w3" by (simp add: connect_body_def)
      with c1 a1 k1 show ?thesis by simp
    next
      case ok3: (Ok u3)
      show ?thesis
      proof (cases "constraintHandler h")
        case None
        with run True c a k ok2 ok3 have "w' = w3" by (simp add: connect_body_def)
        with c1 a1 k1 show ?thesis by simp
      next
        case (Some ch)
        define constraint where
          "constraint = (case currentConstraint ch of None \<Rightarrow> new_mxConnectionConstraint
                         | Some c \<Rightarrow> c)"
        obtain r4 w4 where
          f: "connectCell g clone (Some terminal) source (Some constraint) w3 = (r4, w4)"
          by (cases "connectCell g clone (Some terminal) source (Some constraint) w3")
        from run True c a k ok2 ok3 Some f have "w' = w4"
          by (simp add: connect_body_def constraint_def split: result.splits)
        with c1 a1 k1 connectCell_calls [OF f] show ?thesis by simp
      qed
    qed
  qed
qed

lemma bracketed_from_mutations:
  "\<forall>c\<in>set ms. is_mutation c \<Longrightarrow>
   bracketed_from (Suc d) (ms @ rest) = bracketed_from (Suc d) rest"
proof (induction ms)
  case Nil
  show ?case by simp
next
  case (Cons c ms)
  then show ?case by (cases c) simp_all
qed

lemma bracketed_transaction:
  "\<forall>c\<in>set ms. is_mutation c \<Longrightarrow> bracketed (BeginUpdate # ms @ [EndUpdate])"
  by (simp add: bracketed_def bracketed_from_mutations)

lemma connect_calls:
  "\<exists>ms. calls_between w (snd (connect g h w edge terminal source isClone))
           = BeginUpdate # ms @ [EndUpdate] \<and> (\<forall>c\<in>set ms. is_mutation c)"
  and connect_updateLevel:
  "updateLevel (snd (connect g h w edge terminal source isClone)) = updateLevel w"
proof -
  obtain r w2 where
    b: "connect_body g h (beginUpdate w) edge (m_parent w edge) terminal source isClone = (r, w2)"
    by (cases "connect_body g h (beginUpdate w) edge (m_parent w edge) terminal source isClone")
  from connect_body_calls [OF b] obtain ms where
    ms: "trace w2 = trace (beginUpdate w) @ ms" "\<forall>c\<in>set ms. is_mutation c"
        "updateLevel w2 = updateLevel (beginUpdate w)" by blast
  have res: "snd (connect g h w edge terminal source isClone) = endUpdate w2"
    using b by (simp add: connect_def Let_def)
  have "calls_between w (endUpdate w2) = BeginUpdate # ms @ [EndUpdate]"
    using ms(1) by (simp add: calls_between_def endUpdate_def beginUpdate_def)
  with ms(2) res
  show "\<exists>ms. calls_between w (snd (connect g h w edge terminal source isClone))
           = BeginUpdate # ms @ [EndUpdate] \<and> (\<forall>c\<in>set ms. is_mutation c)"
    by auto
  show "updateLevel (snd (connect g h w edge terminal source isClone)) = updateLevel w"
    using ms(3) res by (simp add: endUpdate_def beginUpdate_def)
qed

lemma changeTerminalPoint_calls:
  assumes "m_geometry w edge = Some geo"
  shows "\<exists>ms. calls_between w (snd (changeTerminalPoint g w edge p source))
           = BeginUpdate # ms @ [EndUpdate] \<and> (\<forall>c\<in>set ms. is_mutation c)"
    and "updateLevel (snd (changeTerminalPoint g w edge p source)) = updateLevel w"
proof -
  define w1 where "w1 = beginUpdate w"
  obtain r2 w2 where s: "model_setGeometry g edge (setTerminalPoint geo p source) w1 = (r2, w2)"
    by (cases "model_setGeometry g edge (setTerminalPoint geo p source) w1")
  obtain r3 w3 where k: "connectCell g edge None source (Some new_mxConnectionConstraint) w2 = (r3, w3)"
    by (cases "connectCell g edge None source (Some new_mxConnectionConstraint) w2")
  note s1 = model_setGeometry_calls [OF s] and k1 = connectCell_calls [OF k]
  have "\<exists>ms w'. snd (changeTerminalPoint g w edge p source) = endUpdate w' \<and>
          trace w' = trace w1 @ ms \<and> (\<forall>c\<in>set ms. is_mutation c) \<and>
          updateLevel w' = updateLevel w1"
  proof (cases r2)
    case (Throw e)
    with assms s have "snd (changeTerminalPoint g w edge p source) = endUpdate w2"
      by (simp add: changeTerminalPoint_def w1_def)
    with s1 show ?thesis
      by (intro exI [of _ "[SetGeometry edge (setTerminalPoint geo p source)]"] exI [of _ w2])
         simp
  next
    case (Ok u)
    with assms s k have "snd (changeTerminalPoint g w edge p source) = endUpdate w3"
      by (simp add: changeTerminalPoint_def w1_def)
    with s1 k1 show ?thesis
      by (intro exI [of _ "[SetGeometry edge (setTerminalPoint geo p source),
                            ConnectCell edge None source (Some new_mxConnectionConstraint)]"]
                exI [of _ w3])
         simp
  qed
  then obtain ms w' where r: "snd (changeTerminalPoint g w edge p source) = endUpdate w'"
    "trace w' = trace w1 @ ms" "\<forall>c\<in>set ms. is_mutation c" "updateLevel w' = updateLevel w1"
    by blast
  have "calls_between w (endUpdate w') = BeginUpdate # ms @ [EndUpdate]"
    using r(2) by (simp add: calls_between_def endUpdate_def beginUpdate_def w1_def)
  with r(1,3)
  show "\<exists>ms. calls_between w (snd (changeTerminalPoint g w edge p source))
           = BeginUpdate # ms @ [EndUpdate] \<and> (\<forall>c\<in>set ms. is_mutation c)"
    by auto
  show "updateLevel (snd (changeTerminalPoint g w edge p source)) = updateLevel w"
    using r(1,4) by (simp add: endUpdate_def beginUpdate_def w1_def)
qed


text \<open>
  Claim C2, amended. \<open>connect\<close>, and \<open>changeTerminalPoint\<close> for an edge with a geometry,
  call \<open>beginUpdate\<close> first and \<open>endUpdate\<close> last, with nothing but their calls that
  change the model in between, and leave the nesting depth of the transaction as it was:
  this holds whichever of these calls throws. \<open>changePoints\<close>, \<open>moveLabel\<close>,
  \<open>addPointAt\<close> and \<open>removePoint\<close> make no call at all or the single call
  \<open>setGeometry\<close>, with no bracket of the handler's around it.
\<close>

theorem commit_transaction_bracket:
  "(\<exists>ms. calls_between w (snd (connect g h w edge terminal source isClone))
            = BeginUpdate # ms @ [EndUpdate] \<and> (\<forall>c\<in>set ms. is_mutation c)) \<and>
   bracketed (calls_between w (snd (connect g h w edge terminal source isClone))) \<and>
   updateLevel (snd (connect g h w edge terminal source isClone)) = updateLevel w \<and>
   (m_geometry w edge \<noteq> None \<longrightarrow>
      (\<exists>ms. calls_between w (snd (changeTerminalPoint g w edge p source))
               = BeginUpdate # ms @ [EndUpdate] \<and> (\<forall>c\<in>set ms. is_mutation c)) \<and>
      bracketed (calls_between w (snd (changeTerminalPoint g w edge p source))) \<and>
      updateLevel (snd (changeTerminalPoint g w edge p source)) = updateLevel w) \<and>
   (calls_between w (snd (changePoints g w edge pts)) = [] \<or>
    (\<exists>geo. calls_between w (snd (changePoints g w edge pts)) = [SetGeometry edge geo])) \<and>
   (calls_between w (snd (moveLabel g w st x y)) = [] \<or>
    (\<exists>geo. calls_between w (snd (moveLabel g w st x y)) = [SetGeometry (cell st) geo])) \<and>
   (calls_between w (snd (snd (addPointAt g w h st x y))) = [] \<or>
    (\<exists>geo. calls_between w (snd (snd (addPointAt g w h st x y))) = [SetGeometry (cell st) geo])) \<and>
   (calls_between w (snd (snd (removePoint g w h st i))) = [] \<or>
    (\<exists>geo. calls_between w (snd (snd (removePoint g w h st i))) = [SetGeometry (cell st) geo]))"
proof -
  have c1: "\<exists>ms. calls_between w (snd (connect g h w edge terminal source isClone))
            = BeginUpdate # ms @ [EndUpdate] \<and> (\<forall>c\<in>set ms. is_mutation c)"
    by (rule connect_calls)
  then have c2: "bracketed (calls_between w (snd (connect g h w edge terminal source isClone)))"
    using bracketed_transaction by auto
  have t: "m_geometry w edge \<noteq> None \<longrightarrow>
      (\<exists>ms. calls_between w (snd (changeTerminalPoint g w edge p source))
               = BeginUpdate # ms @ [EndUpdate] \<and> (\<forall>c\<in>set ms. is_mutation c)) \<and>
      bracketed (calls_between w (snd (changeTerminalPoint g w edge p source))) \<and>
      updateLevel (snd (changeTerminalPoint g w edge p source)) = updateLevel w"
  proof
    assume "m_geometry w edge \<noteq> None"
    then obtain geo where geo: "m_geometry w edge = Some geo" by auto
    from changeTerminalPoint_calls [OF geo, of g p source] bracketed_transaction
    show "(\<exists>ms. calls_between w (snd (changeTerminalPoint g w edge p source))
               = BeginUpdate # ms @ [EndUpdate] \<and> (\<forall>c\<in>set ms. is_mutation c)) \<and>
      bracketed (calls_between w (snd (changeTerminalPoint g w edge p source))) \<and>
      updateLevel (snd (changeTerminalPoint g w edge p source)) = updateLevel w"
      by auto
  qed
  have p: "calls_between w (snd (changePoints g w edge pts)) = [] \<or>
    (\<exists>geo. calls_between w (snd (changePoints g w edge pts)) = [SetGeometry edge geo])"
    by (auto simp: changePoints_def calls_between_def model_setGeometry_def
        split: option.splits)
  have l: "calls_between w (snd (moveLabel g w st x y)) = [] \<or>
    (\<exists>geo. calls_between w (snd (moveLabel g w st x y)) = [SetGeometry (cell st) geo])"
    by (auto simp: moveLabel_def calls_between_def model_setGeometry_def Let_def
        split: option.splits)
  have a: "calls_between w (snd (snd (addPointAt g w h st x y))) = [] \<or>
    (\<exists>geo. calls_between w (snd (snd (addPointAt g w h st x y))) = [SetGeometry (cell st) geo])"
    by (auto simp: addPointAt_def calls_between_def model_setGeometry_def Let_def
        split: option.splits prod.splits)
  have r: "calls_between w (snd (snd (removePoint g w h st i))) = [] \<or>
    (\<exists>geo. calls_between w (snd (snd (removePoint g w h st i))) = [SetGeometry (cell st) geo])"
    by (auto simp: removePoint_def calls_between_def model_setGeometry_def Let_def
        split: option.splits prod.splits)
  from c1 c2 connect_updateLevel [of g h w edge terminal source isClone] t p l a r
  show ?thesis by blast
qed

text \<open>In a graph where every call into the model throws: \<open>connect\<close> throws after its
  first call, and \<open>endUpdate\<close> has been called all the same.\<close>

theorem commit_transaction_bracket_witness:
  "fst (connect (ex_graph\<lparr>fails := (\<lambda>w c. True)\<rparr>) ex_handler ex_world 0 1 True False)
     = Throw ModelError \<and>
   calls_between ex_world
     (snd (connect (ex_graph\<lparr>fails := (\<lambda>w c. True)\<rparr>) ex_handler ex_world 0 1 True False))
     = [BeginUpdate, ConnectCell 0 (Some 1) True (Some new_mxConnectionConstraint), EndUpdate] \<and>
   bracketed (calls_between ex_world
     (snd (connect (ex_graph\<lparr>fails := (\<lambda>w c. True)\<rparr>) ex_handler ex_world 0 1 True False))) \<and>
   m_geometry ex_world 0 \<noteq> None \<and>
   bracketed (calls_between ex_world
     (snd (changeTerminalPoint (ex_graph\<lparr>fails := (\<lambda>w c. True)\<rparr>) ex_world 0 \<lparr>px = 5, py = 5\<rparr> True)))"
proof -
  have geo: "m_geometry ex_world 0 \<noteq> None" by (simp add: ex_world_def)
  have run: "connect (ex_graph\<lparr>fails := (\<lambda>w c. True)\<rparr>) ex_handler ex_world 0 1 True False
     = (Throw ModelError,
        endUpdate (log (ConnectCell 0 (Some 1) True (Some new_mxConnectionConstraint))
          (beginUpdate ex_world)))"
    by (simp add: connect_def connect_body_def connectCell_def ex_handler_def Let_def)
  have calls: "calls_between ex_world
     (snd (connect (ex_graph\<lparr>fails := (\<lambda>w c. True)\<rparr>) ex_handler ex_world 0 1 True False))
     = [BeginUpdate, ConnectCell 0 (Some 1) True (Some new_mxConnectionConstraint), EndUpdate]"
    unfolding run by (simp add: calls_between_def endUpdate_def beginUpdate_def ex_world_def)
  from commit_transaction_bracket
         [where g = "ex_graph\<lparr>fails := (\<lambda>w c. True)\<rparr>" and h = ex_handler and w = ex_world
            and edge = 0 and terminal = 1 and source = True and isClone = False
            and p = "\<lparr>px = 5, py = 5\<rparr>"]
       geo run calls
  show ?thesis by simp
qed

text \<open>
  The claim as it was stated fails for \<open>changePoints\<close>: its call of \<open>setGeometry\<close> is
  made outside every transaction bracket.
\<close>

theorem changePoints_unbracketed_counterexample:
  "calls_between ex_world (snd (changePoints ex_graph ex_world 0 (Some [])))
     = [SetGeometry 0 (ex_geometry\<lparr>gpoints := Some []\<rparr>)] \<and>
   \<not> bracketed (calls_between ex_world (snd (changePoints ex_graph ex_world 0 (Some []))))"
  by (simp add: changePoints_def model_setGeometry_def calls_between_def bracketed_def
      ex_world_def ex_graph_def)

section \<open>The terminal state of the preview\<close>

lemma marker_process_fields:
  "constraintHandler (marker_process g w h me) = constraintHandler h"
  "isSource (marker_process g w h me) = isSource h"
  "isTarget (marker_process g w h me) = isTarget h"
  "isLabel (marker_process g w h me) = isLabel h"
  "points (marker_process g w h me) = points h"
  "state (marker_process g w h me) = state h"
  "index (marker_process g w h me) = index h"
  "shape (marker_process g w h me) = shape h"
  "(marker (marker_process g w h me) = None) = (marker h = None)"
  by (simp_all add: marker_process_def isValidState_def Let_def split: option.splits)

text \<open>
  Claim C4, amended. \<open>getPreviewTerminalState\<close> returns the valid state that the marker has
  after processing the event, whenever there is one, also when the constraint handler
  has a focus and a constraint; it returns the focus only when the marker has no valid
  state and the constraint handler has both. When the constraint handler has both, the
  marker is reset, after its valid state has been read.
\<close>

theorem getPreviewTerminalState_result:
  assumes "constraintHandler h = Some ch0"
    and "marker h = Some m0"
    and "ch = constraint_update g me (isSource h) ch0"
    and "marker (marker_process g w (h\<lparr>constraintHandler := Some ch\<rparr>) me) = Some m"
  shows "\<exists>h'. getPreviewTerminalState g w h me =
           (Ok (case validState m of
                  Some s \<Rightarrow> Some s
                | None \<Rightarrow> if currentFocus ch \<noteq> None \<and> currentConstraint ch \<noteq> None
                          then currentFocus ch else None), h') \<and>
           constraintHandler h' = Some ch \<and>
           marker h' = Some (if currentFocus ch \<noteq> None \<and> currentConstraint ch \<noteq> None
                             then marker_reset m else m)"
  using assms
  by (auto simp: getPreviewTerminalState_def Let_def marker_process_fields
      split: option.splits)

theorem getPreviewTerminalState_result_witness:
  "fst (getPreviewTerminalState ex_constraint_graph ex_world ex_source_drag (ex_event 5 5))
     = Ok (Some 1) \<and>
   map_option validState
     (marker (snd (getPreviewTerminalState ex_constraint_graph ex_world ex_source_drag
                     (ex_event 5 5)))) = Some None"
proof -
  let ?ch = "\<lparr>currentFocus = Some 2, currentConstraint = Some new_mxConnectionConstraint\<rparr>"
  let ?m = "\<lparr>validState = Some 1, markedState = Some 1,
             validColor = ''#00FF00'', invalidColor = ''#FF0000''\<rparr>"
  have a: "constraintHandler ex_source_drag = Some \<lparr>currentFocus = None, currentConstraint = None\<rparr>"
    and b: "marker ex_source_drag = Some \<lparr>validState = None, markedState = None,
              validColor = ''#00FF00'', invalidColor = ''#FF0000''\<rparr>"
    by (simp_all add: ex_source_drag_def ex_handler_def)
  have c: "?ch = constraint_update ex_constraint_graph (ex_event 5 5) (isSource ex_source_drag)
             \<lparr>currentFocus = None, currentConstraint = None\<rparr>"
    by (simp add: ex_constraint_graph_def)
  have d: "marker (marker_process ex_constraint_graph ex_world
             (ex_source_drag\<lparr>constraintHandler := Some ?ch\<rparr>) (ex_event 5 5)) = Some ?m"
    by (simp add: marker_process_def isValidState_def validateConnection_def Let_def
        ex_constraint_graph_def ex_graph_def ex_source_drag_def ex_handler_def)
  from getPreviewTerminalState_result [OF a b c d] show ?thesis
    by (auto simp: marker_reset_def)
qed

text \<open>
  The claim as it was stated fails when the marker and the constraint handler find
  different cells: the marker accepts cell 1, the constraint handler has a constraint
  with the focus on cell 2, and the state of cell 1 is returned.
\<close>

theorem getPreviewTerminalState_focus_counterexample:
  "fst (getPreviewTerminalState ex_constraint_graph ex_world ex_source_drag (ex_event 5 5))
     = Ok (Some 1) \<and>
   map_option validState
     (marker (marker_process ex_constraint_graph ex_world
        (ex_source_drag\<lparr>constraintHandler := Some \<lparr>currentFocus = Some 2,
            currentConstraint = Some new_mxConnectionConstraint\<rparr>\<rparr>) (ex_event 5 5)))
     = Some (Some 1) \<and>
   map_option currentFocus
     (constraintHandler (snd (getPreviewTerminalState ex_constraint_graph ex_world ex_source_drag
        (ex_event 5 5)))) = Some (Some 2) \<and>
   map_option currentConstraint
     (constraintHandler (snd (getPreviewTerminalState ex_constraint_graph ex_world ex_source_drag
        (ex_event 5 5)))) = Some (Some new_mxConnectionConstraint)"
  by (simp add: getPreviewTerminalState_def marker_process_def isValidState_def
      validateConnection_def Let_def ex_constraint_graph_def ex_graph_def ex_source_drag_def
      ex_handler_def marker_reset_def)

section \<open>Dragging an end into the void\<close>

lemma getPreviewTerminalState_fields:
  assumes "getPreviewTerminalState g w h me = (r, h2)"
  shows "isSource h2 = isSource h" and "isTarget h2 = isTarget h" and "isLabel h2 = isLabel h"
    and "points h2 = points h" and "state h2 = state h" and "index h2 = index h"
    and "shape h2 = shape h"
    and "r = Ok t \<Longrightarrow> constraintHandler h2 \<noteq> None"
  using assms
  by (auto simp: getPreviewTerminalState_def Let_def marker_process_fields
      split: option.splits if_splits)

lemma getPreviewPoints_endpoint:
  "isSource h \<or> isTarget h \<Longrightarrow> m_geometry w (cell (state h)) = Some geo \<Longrightarrow>
   getPreviewPoints g w h p = Ok (if resetEdgesOnConnect g then None else gpoints geo, p)"
  by (auto simp: getPreviewPoints_def Let_def)

lemma updatePreviewState_dangling:
  assumes "isSource h \<or> isTarget h" and "marker h = Some m" and "markedState m = None"
    and "constraintHandler h = Some ch"
  shows "\<exists>clone. updatePreviewState g h edge point None
           = Ok (clone, h\<lparr>error := (if allowDanglingEdges g then None else Some [])\<rparr>)"
  using assms by (simp add: updatePreviewState_def Let_def)

lemma commit_silent_error: "error h = Some [] \<Longrightarrow> commit g w h me = (Ok (cell (state h)), h, w)"
  by (simp add: commit_def Let_def)

lemma mouseUp_silent_error:
  assumes "error h = Some []"
  shows "snd (snd (mouseUp g w h me)) = w"
proof (cases "index h \<noteq> None \<and> marker h \<noteq> None")
  case False
  then show ?thesis by (auto simp: mouseUp_def)
next
  case True
  obtain r h2 where rs: "reset g w h = (r, h2)" by (cases "reset g w h")
  from reset_state [of g w h] rs have st: "state h2 = state h" by simp
  from True rs st commit_silent_error [OF assms, of g w me] show ?thesis
    by (cases r) (auto simp: mouseUp_def)
qed

text \<open>
  Claim C3. In a move of an armed drag of the source or the target end, when no terminal
  state resolves and the marker has no marked state afterwards, the handler's error
  becomes null if the graph allows dangling edges and the empty string if it does not.
  A pointer-up with the empty string as error makes no call at all, so there is no alert
  and the model is unchanged.
\<close>

theorem dangling_endpoint_drag:
  assumes "index h \<noteq> None" and "marker h \<noteq> None" and "\<not> isLabel h"
    and "isSource h \<or> isTarget h"
    and "m_geometry w (cell (state h)) = Some geo"
    and "getPreviewTerminalState g w
           (h\<lparr>points := (if resetEdgesOnConnect g then None else gpoints geo)\<rparr>) me
         = (Ok None, h2)"
    and "marker h2 = Some m2" and "markedState m2 = None"
  shows "error (snd (mouseMove g w h me)) = (if allowDanglingEdges g then None else Some []) \<and>
         (\<not> allowDanglingEdges g \<longrightarrow>
            snd (snd (mouseUp g w' (snd (mouseMove g w h me)) me')) = w')"
proof -
  let ?h1 = "h\<lparr>points := (if resetEdgesOnConnect g then None else gpoints geo)\<rparr>"
  let ?E = "if allowDanglingEdges g then None else Some []"
  note f = getPreviewTerminalState_fields [OF assms(6)]
  from f(1,2) assms(4) have end2: "isSource h2 \<or> isTarget h2" by simp
  from f(8) obtain ch where ch: "constraintHandler h2 = Some ch" by auto
  from updatePreviewState_dangling [OF end2 assms(7,8) ch, of g "state h2" "getPointForEvent g h me"]
  obtain clone where up: "updatePreviewState g h2 (state h2) (getPointForEvent g h me) None
      = Ok (clone, h2\<lparr>error := ?E\<rparr>)" by blast
  have pp: "getPreviewPoints g w h (getPointForEvent g h me)
      = Ok (if resetEdgesOnConnect g then None else gpoints geo, getPointForEvent g h me)"
    using assms(4,5) by (rule getPreviewPoints_endpoint)
  define X where "X = (setPreviewColor (h2\<lparr>error := ?E\<rparr>)
             (if ?E = None then validColor m2 else invalidColor m2))
           \<lparr>abspoints := absolutePoints clone, abspointsShared := False, active := True\<rparr>"
  have mm: "snd (mouseMove g w h me) = snd (drawPreview g X)"
    unfolding X_def using assms(1,2,3,4,6,7) pp up
    by (simp add: mouseMove_def Let_def)
  have "error X = ?E" unfolding X_def by simp
  then have err: "error (snd (mouseMove g w h me)) = ?E"
    unfolding mm drawPreview_fields(2) .
  then show ?thesis
    using mouseUp_silent_error [of "snd (mouseMove g w h me)" g w' me'] by simp
qed

theorem dangling_endpoint_drag_witness:
  "\<not> allowDanglingEdges ex_graph \<and>
   error (snd (mouseMove ex_graph ex_world ex_source_drag (ex_event 5 5))) = Some [] \<and>
   snd (snd (mouseUp ex_graph ex_world
               (snd (mouseMove ex_graph ex_world ex_source_drag (ex_event 5 5)))
               (ex_event 5 5))) = ex_world"
proof -
  let ?h1 = "ex_source_drag\<lparr>points := (if resetEdgesOnConnect ex_graph then None
                                          else gpoints ex_geometry)\<rparr>"
  let ?m = "\<lparr>validState = None, markedState = None,
             validColor = ''#00FF00'', invalidColor = ''#FF0000''\<rparr>"
  have a: "index ex_source_drag \<noteq> None" "marker ex_source_drag \<noteq> None"
    "\<not> isLabel ex_source_drag" "isSource ex_source_drag \<or> isTarget ex_source_drag"
    by (simp_all add: ex_source_drag_def ex_handler_def)
  have geo: "m_geometry ex_world (cell (state ex_source_drag)) = Some ex_geometry"
    by (simp add: ex_world_def ex_source_drag_def ex_handler_def)
  have r: "fst (getPreviewTerminalState ex_graph ex_world ?h1 (ex_event 5 5)) = Ok None"
    by (simp add: getPreviewTerminalState_def marker_process_def Let_def
        ex_graph_def ex_source_drag_def ex_handler_def)
  have m: "marker (snd (getPreviewTerminalState ex_graph ex_world ?h1 (ex_event 5 5))) = Some ?m"
    by (simp add: getPreviewTerminalState_def marker_process_def Let_def
        ex_graph_def ex_source_drag_def ex_handler_def)
  have p: "getPreviewTerminalState ex_graph ex_world ?h1 (ex_event 5 5)
      = (Ok None, snd (getPreviewTerminalState ex_graph ex_world ?h1 (ex_event 5 5)))"
    using r by (cases "getPreviewTerminalState ex_graph ex_world ?h1 (ex_event 5 5)") simp
  have d: "\<not> allowDanglingEdges ex_graph" by (simp add: ex_graph_def)
  from dangling_endpoint_drag [OF a geo p m, of ex_world "ex_event 5 5"] d
  show ?thesis by simp
qed

section \<open>Snapping the point of an event\<close>

lemma js_less_array_never: "\<not> js_less_array i a"
  by (simp add: js_less_array_def array_toNumber_def)

lemma snapToAbspoints_id: "snapToAbspoints tt idx a i s = s"
  by (subst snapToAbspoints.simps) (simp add: js_less_array_never)

lemma snapToPoint_eq:
  "snapToPoint tt (Some c) (p, ox, oy) =
     (\<lparr>px = (if \<bar>px p - px c\<bar> < tt then px c else px p),
       py = (if \<bar>py p - py c\<bar> < tt then py c else py p)\<rparr>,
      (\<bar>px p - px c\<bar> < tt \<or> ox), (\<bar>py p - py c\<bar> < tt \<or> oy))"
  by (simp add: snapToPoint_def)

text \<open>
  Claim C5, amended. With \<open>snapToTerminals\<close> set and a positive tolerance,
  \<open>getPointForEvent\<close> snaps each coordinate of the pointer on its own, first to the
  routing centre of the visible source terminal and then to that of the visible target
  terminal: a centre closer than the tolerance to the coordinate as it then is replaces
  it, so that of two centres that both match the later one stays. A coordinate that was
  not replaced is put on the grid when the grid is enabled for the event.
\<close>

theorem getPointForEvent_snaps_to_terminals:
  assumes "snapToTerminals h" and "getSnapToTerminalTolerance g > 0"
  shows "px (getPointForEvent g h me) =
           (case snap_axis (getSnapToTerminalTolerance g) (getGraphX me)
                   (map_option (getRoutingCenterX g) (visibleSourceState (state h)))
                   (map_option (getRoutingCenterX g) (visibleTargetState (state h))) of
              (v, replaced) \<Rightarrow>
                if isGridEnabledEvent me \<and> \<not> replaced then grid_coord g (px (translate g)) v
                else v) \<and>
         py (getPointForEvent g h me) =
           (case snap_axis (getSnapToTerminalTolerance g) (getGraphY me)
                   (map_option (getRoutingCenterY g) (visibleSourceState (state h)))
                   (map_option (getRoutingCenterY g) (visibleTargetState (state h))) of
              (v, replaced) \<Rightarrow>
                if isGridEnabledEvent me \<and> \<not> replaced then grid_coord g (py (translate g)) v
                else v)"
proof -
  define tt where "tt = getSnapToTerminalTolerance g"
  define s2 where
    "s2 = snapToTerminal g tt (visibleTargetState (state h))
            (snapToTerminal g tt (visibleSourceState (state h))
               (\<lparr>px = getGraphX me, py = getGraphY me\<rparr>, False, False))"
  have run: "getPointForEvent g h me =
      (case s2 of (p, overrideX, overrideY) \<Rightarrow>
         if isGridEnabledEvent me
         then (let p1 = (if \<not> overrideX
                         then p\<lparr>px := (snap g (px p / scale g - px (translate g)) + px (translate g)) * scale g\<rparr>
                         else p)
               in if \<not> overrideY
                  then p1\<lparr>py := (snap g (py p1 / scale g - py (translate g)) + py (translate g)) * scale g\<rparr>
                  else p1)
         else p)"
    using assms
    by (simp add: getPointForEvent_def snapToAbspoints_id Let_def s2_def tt_def
        del: snapToAbspoints.simps split: option.splits)
  have s2: "s2 =
      (\<lparr>px = fst (snap_axis tt (getGraphX me)
                   (map_option (getRoutingCenterX g) (visibleSourceState (state h)))
                   (map_option (getRoutingCenterX g) (visibleTargetState (state h)))),
         py = fst (snap_axis tt (getGraphY me)
                   (map_option (getRoutingCenterY g) (visibleSourceState (state h)))
                   (map_option (getRoutingCenterY g) (visibleTargetState (state h))))\<rparr>,
       snd (snap_axis tt (getGraphX me)
                   (map_option (getRoutingCenterX g) (visibleSourceState (state h)))
                   (map_option (getRoutingCenterX g) (visibleTargetState (state h)))),
       snd (snap_axis tt (getGraphY me)
                   (map_option (getRoutingCenterY g) (visibleSourceState (state h)))
                   (map_option (getRoutingCenterY g) (visibleTargetState (state h)))))"
    unfolding s2_def
    by (cases "visibleSourceState (state h)"; cases "visibleTargetState (state h)")
       (simp_all add: snapToTerminal_def snapToPoint_eq snap_axis_def)
  show ?thesis
    unfolding run s2 tt_def [symmetric]
    by (simp add: grid_coord_def Let_def split_beta)
qed

theorem getPointForEvent_snaps_to_terminals_witness:
  "snapToTerminals ex_snap_handler \<and> getSnapToTerminalTolerance ex_graph = 5 \<and>
   px (getPointForEvent ex_graph ex_snap_handler (ex_event 2 50)) = 3 \<and>
   py (getPointForEvent ex_graph ex_snap_handler (ex_event 2 50)) = 50"
proof -
  have a: "snapToTerminals ex_snap_handler" by (simp add: ex_snap_handler_def)
  have t: "getSnapToTerminalTolerance ex_graph = 5"
    by (simp add: getSnapToTerminalTolerance_def ex_graph_def)
  then have b: "getSnapToTerminalTolerance ex_graph > 0" by simp
  have s: "visibleSourceState (state ex_snap_handler) = Some 1"
    "visibleTargetState (state ex_snap_handler) = Some 2"
    by (simp_all add: ex_snap_handler_def ex_handler_def)
  have c: "getRoutingCenterX ex_graph 1 = 0" "getRoutingCenterX ex_graph 2 = 3"
    "getRoutingCenterY ex_graph 1 = 0" "getRoutingCenterY ex_graph 2 = 1000"
    by (simp_all add: ex_graph_def)
  have e: "getGraphX (ex_event 2 50) = 2" "getGraphY (ex_event 2 50) = 50"
    "\<not> isGridEnabledEvent (ex_event 2 50)"
    by (simp_all add: ex_event_def)
  have x: "snap_axis 5 2 (Some 0) (Some 3) = (3, True)"
    and y: "snap_axis 5 50 (Some 0) (Some 1000) = (50, False)"
    by (simp_all add: snap_axis_def)
  from getPointForEvent_snaps_to_terminals [OF a b, of "ex_event 2 50"]
  have "px (getPointForEvent ex_graph ex_snap_handler (ex_event 2 50)) = 3 \<and>
        py (getPointForEvent ex_graph ex_snap_handler (ex_event 2 50)) = 50"
    unfolding s c t option.map by (simp add: e x y)
  with a t show ?thesis by simp
qed

text \<open>
  The claim as it was stated fails at the pointer \<open>(2, 50)\<close> with the tolerance 5. The
  source centre 0 is the first candidate that matches the x coordinate, and the result
  has the x of the target centre, 3. The bend 2, which is not the dragged one, lies at
  the height 52, within the tolerance of 50, and the y coordinate stays 50.
\<close>

theorem getPointForEvent_first_match_counterexample:
  "getPointForEvent ex_graph ex_snap_handler (ex_event 2 50) = \<lparr>px = 3, py = 50\<rparr> \<and>
   snapToTerminals ex_snap_handler \<and>
   getSnapToTerminalTolerance ex_graph = 5 \<and>
   visibleSourceState (state ex_snap_handler) = Some 1 \<and>
   getRoutingCenterX ex_graph 1 = 0 \<and>
   index ex_snap_handler = Some 1 \<and>
   map_option (\<lambda>a. js_nth a 2) (abspoints ex_snap_handler) = Some (Some \<lparr>px = 200, py = 52\<rparr>)"
proof -
  have t: "getSnapToTerminalTolerance ex_graph = 5"
    by (simp add: getSnapToTerminalTolerance_def ex_graph_def)
  have h: "snapToTerminals ex_snap_handler" "index ex_snap_handler = Some 1"
    "visibleSourceState (state ex_snap_handler) = Some 1"
    "visibleTargetState (state ex_snap_handler) = Some 2"
    "abspoints ex_snap_handler =
       Some [Some \<lparr>px = 0, py = 0\<rparr>, Some \<lparr>px = 100, py = 50\<rparr>,
             Some \<lparr>px = 200, py = 52\<rparr>, Some \<lparr>px = 300, py = 0\<rparr>]"
    by (simp_all add: ex_snap_handler_def ex_handler_def)
  have c: "getRoutingCenterX ex_graph (Suc 0) = 0" "getRoutingCenterX ex_graph 2 = 3"
    "getRoutingCenterY ex_graph (Suc 0) = 0" "getRoutingCenterY ex_graph 2 = 1000"
    by (simp_all add: ex_graph_def)
  have e: "getGraphX (ex_event 2 50) = 2" "getGraphY (ex_event 2 50) = 50"
    "\<not> isGridEnabledEvent (ex_event 2 50)"
    by (simp_all add: ex_event_def)
  have r: "getPointForEvent ex_graph ex_snap_handler (ex_event 2 50) = \<lparr>px = 3, py = 50\<rparr>"
    by (simp add: getPointForEvent_def snapToTerminal_def snapToPoint_eq snapToAbspoints_id
        Let_def t h c e del: snapToAbspoints.simps)
  from r t h c show ?thesis by (simp add: js_nth_def)
qed

section \<open>Reconnecting with a clone\<close>

text \<open>
  Claim C6. When no call into the model throws, \<open>connect\<close> with \<open>isClone\<close> set, for an
  edge of the model, returns a new cell, different from the edge: a copy of the edge's
  geometry, added to the parent of the edge, with the end that was not dragged connected
  to the terminal the edge has there and the dragged end connected to the new terminal.
  The geometry and the terminals of the edge itself stay as they were. The calls made
  are \<open>beginUpdate\<close>, \<open>add\<close> of the clone to the parent, \<open>connectCell\<close> for the end
  that was not dragged, \<open>connectCell\<close> for the dragged end with the constraint of the
  constraint handler (a new one if it has none), and \<open>endUpdate\<close>.
\<close>

theorem connect_clone:
  assumes nofail: "\<forall>w' c. \<not> fails g w' c"
    and ch: "constraintHandler h = Some ch"
    and alloc: "edge < ncells w"
  shows "\<exists>clone w'. connect g h w edge terminal source True = (Ok clone, w') \<and>
           clone \<noteq> edge \<and>
           m_geometry w' clone = m_geometry w edge \<and>
           m_parent w' clone = m_parent w edge \<and>
           (\<forall>p. m_parent w edge = Some p \<longrightarrow> clone \<in> set (m_children w' p)) \<and>
           m_terminal w' clone (\<not> source) = m_terminal w edge (\<not> source) \<and>
           m_terminal w' clone source = Some terminal \<and>
           m_geometry w' edge = m_geometry w edge \<and>
           m_terminal w' edge = m_terminal w edge \<and>
           (\<exists>i. calls_between w w' =
              [BeginUpdate,
               Add (m_parent w edge) clone i,
               ConnectCell clone (m_terminal w edge (\<not> source)) (\<not> source) None,
               ConnectCell clone (Some terminal) source
                 (Some (case currentConstraint ch of
                          None \<Rightarrow> new_mxConnectionConstraint
                        | Some c \<Rightarrow> c)),
               EndUpdate])"
  using assms
  by (cases "m_parent w edge")
     (auto simp: connect_def connect_body_def cell_clone_def model_add_def connectCell_def
        beginUpdate_def endUpdate_def log_def getChildCount_def calls_between_def Let_def)

theorem connect_clone_witness:
  "(\<forall>w' c. \<not> fails ex_graph w' c) \<and> constraintHandler ex_handler \<noteq> None \<and> 0 < ncells ex_world \<and>
   fst (connect ex_graph ex_handler ex_world 0 2 True True) = Ok 3 \<and>
   m_terminal (snd (connect ex_graph ex_handler ex_world 0 2 True True)) 3 True = Some 2 \<and>
   m_terminal (snd (connect ex_graph ex_handler ex_world 0 2 True True)) 3 False = Some 2 \<and>
   m_terminal (snd (connect ex_graph ex_handler ex_world 0 2 True True)) 0 True = Some 1 \<and>
   m_geometry (snd (connect ex_graph ex_handler ex_world 0 2 True True)) 0 = Some ex_geometry \<and>
   m_geometry (snd (connect ex_graph ex_handler ex_world 0 2 True True)) 3 = Some ex_geometry"
proof -
  have a: "\<forall>w' c. \<not> fails ex_graph w' c" by (simp add: ex_graph_def)
  have b: "constraintHandler ex_handler = Some \<lparr>currentFocus = None, currentConstraint = None\<rparr>"
    by (simp add: ex_handler_def)
  have c: "0 < ncells ex_world" by (simp add: ex_world_def)
  have n: "ncells ex_world = 3" by (simp add: ex_world_def)
  have t: "m_terminal ex_world 0 = (\<lambda>s. if s then Some 1 else Some 2)"
    "m_geometry ex_world 0 = Some ex_geometry"
    by (simp_all add: ex_world_def)
  have r: "fst (connect ex_graph ex_handler ex_world 0 2 True True) = Ok 3"
    using a b n
    by (simp add: connect_def connect_body_def cell_clone_def model_add_def connectCell_def
        beginUpdate_def endUpdate_def log_def getChildCount_def Let_def ex_world_def)
  from connect_clone [OF a b c, of 2 True] r t a b c show ?thesis
    by (cases "connect ex_graph ex_handler ex_world 0 2 True True") auto
qed

section \<open>Dragging a bend\<close>







section \<open>An edge without geometry\<close>

text \<open>
  Claim C8. When the model has no geometry for the edge, \<open>moveLabel\<close>,
  \<open>changeTerminalPoint\<close>, \<open>changePoints\<close> and \<open>addPointAt\<close> return normally and leave
  the model, the trace of calls and the handler as they were.
\<close>

theorem absent_geometry_noop:
  assumes "m_geometry w edge = None" and "cell st = edge"
  shows "moveLabel g w st x y = (Ok (), w) \<and>
         changeTerminalPoint g w edge p source = (Ok (), w) \<and>
         changePoints g w edge pts = (Ok (), w) \<and>
         addPointAt g w h st x y = (Ok (), h, w)"
  using assms
  by (simp add: moveLabel_def changeTerminalPoint_def changePoints_def addPointAt_def)

theorem absent_geometry_noop_witness:
  "m_geometry ex_world 1 = None \<and> cell (state ex_handler\<lparr>cell := 1\<rparr>) = 1 \<and>
   moveLabel ex_graph ex_world (state ex_handler\<lparr>cell := 1\<rparr>) 30 40 = (Ok (), ex_world) \<and>
   changeTerminalPoint ex_graph ex_world 1 \<lparr>px = 5, py = 5\<rparr> True = (Ok (), ex_world) \<and>
   changePoints ex_graph ex_world 1 (Some []) = (Ok (), ex_world) \<and>
   addPointAt ex_graph ex_world ex_handler (state ex_handler\<lparr>cell := 1\<rparr>) 50 50
     = (Ok (), ex_handler, ex_world)"
proof -
  have a: "m_geometry ex_world 1 = None" by (simp add: ex_world_def)
  have b: "cell (state ex_handler\<lparr>cell := 1\<rparr>) = 1" by simp
  from absent_geometry_noop [OF a b] a b show ?thesis by simp
qed

text \<open>
  Claim C10. \<open>getPreviewPoints\<close> reads \<open>geometry.points\<close> without a test: for an edge
  without geometry it throws a TypeError, and so does \<open>mouseMove\<close> of an armed drag of a
  bend, leaving the handler as it was; for an edge with a geometry it returns.
\<close>

theorem getPreviewPoints_needs_geometry:
  "(m_geometry w (cell (state h)) = None \<longrightarrow>
      getPreviewPoints g w h point = Throw TypeError \<and>
      (index h \<noteq> None \<and> marker h \<noteq> None \<and> \<not> isLabel h \<longrightarrow>
         mouseMove g w h me = (Throw TypeError, h))) \<and>
   (m_geometry w (cell (state h)) \<noteq> None \<longrightarrow>
      (\<exists>r. getPreviewPoints g w h point = Ok r))"
  by (auto simp: getPreviewPoints_def mouseMove_def Let_def split: option.splits)

theorem getPreviewPoints_needs_geometry_witness:
  "getPreviewPoints ex_graph (ex_world\<lparr>m_geometry := (\<lambda>c. None)\<rparr>)
     (ex_handler\<lparr>index := Some 1\<rparr>) \<lparr>px = 100, py = 50\<rparr> = Throw TypeError \<and>
   mouseMove ex_graph (ex_world\<lparr>m_geometry := (\<lambda>c. None)\<rparr>)
     (ex_handler\<lparr>index := Some 1\<rparr>) (ex_event 100 50)
     = (Throw TypeError, ex_handler\<lparr>index := Some 1\<rparr>) \<and>
   (\<exists>r. getPreviewPoints ex_graph ex_world (ex_handler\<lparr>index := Some 1\<rparr>)
          \<lparr>px = 100, py = 50\<rparr> = Ok r)"
proof -
  have a: "m_geometry (ex_world\<lparr>m_geometry := (\<lambda>c. None)\<rparr>)
             (cell (state (ex_handler\<lparr>index := Some 1\<rparr>))) = None" by simp
  have b: "index (ex_handler\<lparr>index := Some 1\<rparr>) \<noteq> None \<and>
           marker (ex_handler\<lparr>index := Some 1\<rparr>) \<noteq> None \<and>
           \<not> isLabel (ex_handler\<lparr>index := Some 1\<rparr>)"
    by (simp add: ex_handler_def)
  have c: "m_geometry ex_world (cell (state (ex_handler\<lparr>index := Some 1\<rparr>))) \<noteq> None"
    by (simp add: ex_world_def ex_handler_def)
  from getPreviewPoints_needs_geometry
         [of "ex_world\<lparr>m_geometry := (\<lambda>c. None)\<rparr>" "ex_handler\<lparr>index := Some 1\<rparr>"
             ex_graph "\<lparr>px = 100, py = 50\<rparr>" "ex_event 100 50"]
       getPreviewPoints_needs_geometry
         [of ex_world "ex_handler\<lparr>index := Some 1\<rparr>" ex_graph "\<lparr>px = 100, py = 50\<rparr>"
             "ex_event 100 50"]
       a b c
  show ?thesis by blast
qed


section \<open>Hit-testing: the nearest handle\<close>

lemma checkShape_eq:
  "checkShape g me hit shp m =
     (if qualifies g me hit shp \<and> beats m (distSq me shp)
      then (True, Some (distSq me shp)) else (False, m))"
  by (simp add: checkShape_def qualifies_def distSq_def beats_def Let_def
      split: option.splits)

lemma checkBends_keep:
  "(\<forall>k<length bs. qualifies g me hit (bs ! k) \<longrightarrow> \<not> beats m (distSq me (bs ! k)))
   \<Longrightarrow> checkBends g me hit bs i m r = r"
proof (induction bs arbitrary: i)
  case Nil
  show ?case by simp
next
  case (Cons b bs)
  from Cons.prems have b: "\<not> (qualifies g me hit b \<and> beats m (distSq me b))"
    by auto
  from Cons.prems have rest:
    "\<forall>k<length bs. qualifies g me hit (bs ! k) \<longrightarrow> \<not> beats m (distSq me (bs ! k))"
    by auto
  from b have "checkShape g me hit b m = (False, m)"
    by (simp add: checkShape_eq)
  then show ?case using Cons.IH [OF rest] by simp
qed

lemma checkBends_pick:
  "\<exists>k<length bs. qualifies g me hit (bs ! k) \<and> beats m (distSq me (bs ! k))
   \<Longrightarrow> \<exists>j<length bs. checkBends g me hit bs i m r = Some (int (i + j)) \<and>
         qualifies g me hit (bs ! j) \<and> beats m (distSq me (bs ! j)) \<and>
         (\<forall>k<length bs. qualifies g me hit (bs ! k) \<longrightarrow>
            distSq me (bs ! j) \<le> distSq me (bs ! k) \<and>
            (j < k \<longrightarrow> distSq me (bs ! j) < distSq me (bs ! k)))"
proof (induction bs arbitrary: i m r)
  case Nil
  then show ?case by simp
next
  case (Cons b bs)
  let ?d = "distSq me b"
  show ?case
  proof (cases "qualifies g me hit b \<and> beats m ?d")
    case True
    then have step: "checkBends g me hit (b # bs) i m r =
        checkBends g me hit bs (Suc i) (Some ?d) (Some (int i))"
      by (simp add: checkShape_eq)
    show ?thesis
    proof (cases "\<exists>k<length bs. qualifies g me hit (bs ! k) \<and> beats (Some ?d) (distSq me (bs ! k))")
      case later: True
      from Cons.IH [OF later, of "Suc i" "Some (int i)"]
      obtain j where j: "j < length bs"
        "checkBends g me hit bs (Suc i) (Some ?d) (Some (int i)) = Some (int (Suc i + j))"
        "qualifies g me hit (bs ! j)" "beats (Some ?d) (distSq me (bs ! j))"
        "\<forall>k<length bs. qualifies g me hit (bs ! k) \<longrightarrow>
            distSq me (bs ! j) \<le> distSq me (bs ! k) \<and>
            (j < k \<longrightarrow> distSq me (bs ! j) < distSq me (bs ! k))"
        by blast
      from j(4) have le: "distSq me (bs ! j) \<le> ?d" by (simp add: beats_def)
      with True have bm: "beats m (distSq me (bs ! j))"
        by (auto simp: beats_def split: option.splits)
      have E: "\<forall>k<length (b # bs). qualifies g me hit ((b # bs) ! k) \<longrightarrow>
            distSq me ((b # bs) ! Suc j) \<le> distSq me ((b # bs) ! k) \<and>
            (Suc j < k \<longrightarrow> distSq me ((b # bs) ! Suc j) < distSq me ((b # bs) ! k))"
      proof (intro allI impI)
        fix k assume k: "k < length (b # bs)" "qualifies g me hit ((b # bs) ! k)"
        show "distSq me ((b # bs) ! Suc j) \<le> distSq me ((b # bs) ! k) \<and>
            (Suc j < k \<longrightarrow> distSq me ((b # bs) ! Suc j) < distSq me ((b # bs) ! k))"
        proof (cases k)
          case 0
          then show ?thesis using le by simp
        next
          case (Suc k')
          then show ?thesis using k j(5) by auto
        qed
      qed
      have A: "Suc j < length (b # bs)" using j(1) by simp
      have B: "checkBends g me hit (b # bs) i m r = Some (int (i + Suc j))"
        using j(2) unfolding step by simp
      have C: "qualifies g me hit ((b # bs) ! Suc j)" using j(3) by simp
      have D: "beats m (distSq me ((b # bs) ! Suc j))" using bm by simp
      from A B C D E show ?thesis by blast
    next
      case nolater: False
      then have "checkBends g me hit bs (Suc i) (Some ?d) (Some (int i)) = Some (int i)"
        by (intro checkBends_keep) blast
      with step have B: "checkBends g me hit (b # bs) i m r = Some (int (i + 0))"
        by (simp only: add_0_right)
      have E: "\<forall>k<length (b # bs). qualifies g me hit ((b # bs) ! k) \<longrightarrow>
            distSq me ((b # bs) ! 0) \<le> distSq me ((b # bs) ! k) \<and>
            (0 < k \<longrightarrow> distSq me ((b # bs) ! 0) < distSq me ((b # bs) ! k))"
      proof (intro allI impI)
        fix k assume k: "k < length (b # bs)" "qualifies g me hit ((b # bs) ! k)"
        show "distSq me ((b # bs) ! 0) \<le> distSq me ((b # bs) ! k) \<and>
            (0 < k \<longrightarrow> distSq me ((b # bs) ! 0) < distSq me ((b # bs) ! k))"
        proof (cases k)
          case 0
          then show ?thesis by simp
        next
          case (Suc k')
          with k nolater have "\<not> beats (Some ?d) (distSq me (bs ! k'))" by auto
          then show ?thesis using Suc by (simp add: beats_def)
        qed
      qed
      have A: "0 < length (b # bs)" by simp
      have C: "qualifies g me hit ((b # bs) ! 0)" using True by simp
      have D: "beats m (distSq me ((b # bs) ! 0))" using True by simp
      from A B C D E show ?thesis by blast
    qed
  next
    case False
    then have "checkShape g me hit b m = (False, m)"
      by (auto simp: checkShape_eq)
    then have step: "checkBends g me hit (b # bs) i m r = checkBends g me hit bs (Suc i) m r"
      by simp
    from Cons.prems obtain k where k: "k < length (b # bs)"
      "qualifies g me hit ((b # bs) ! k)" "beats m (distSq me ((b # bs) ! k))"
      by blast
    with False obtain k' where k': "k = Suc k'" by (cases k) auto
    with k have "\<exists>k<length bs. qualifies g me hit (bs ! k) \<and> beats m (distSq me (bs ! k))"
      by auto
    from Cons.IH [OF this, of "Suc i" r]
    obtain j where j: "j < length bs"
      "checkBends g me hit bs (Suc i) m r = Some (int (Suc i + j))"
      "qualifies g me hit (bs ! j)" "beats m (distSq me (bs ! j))"
      "\<forall>k<length bs. qualifies g me hit (bs ! k) \<longrightarrow>
          distSq me (bs ! j) \<le> distSq me (bs ! k) \<and>
          (j < k \<longrightarrow> distSq me (bs ! j) < distSq me (bs ! k))"
      by blast
    have E: "\<forall>k<length (b # bs). qualifies g me hit ((b # bs) ! k) \<longrightarrow>
          distSq me ((b # bs) ! Suc j) \<le> distSq me ((b # bs) ! k) \<and>
          (Suc j < k \<longrightarrow> distSq me ((b # bs) ! Suc j) < distSq me ((b # bs) ! k))"
    proof (intro allI impI)
      fix k assume k: "k < length (b # bs)" "qualifies g me hit ((b # bs) ! k)"
      show "distSq me ((b # bs) ! Suc j) \<le> distSq me ((b # bs) ! k) \<and>
          (Suc j < k \<longrightarrow> distSq me ((b # bs) ! Suc j) < distSq me ((b # bs) ! k))"
      proof (cases k)
        case 0
        with k False have "\<not> beats m ?d" by simp
        with j(4) show ?thesis using 0
          by (auto simp: beats_def split: option.splits)
      next
        case (Suc k')
        then show ?thesis using k j(5) by auto
      qed
    qed
    have A: "Suc j < length (b # bs)" using j(1) by simp
    have B: "checkBends g me hit (b # bs) i m r = Some (int (i + Suc j))"
      using j(2) unfolding step by simp
    have C: "qualifies g me hit ((b # bs) ! Suc j)" using j(3) by simp
    have D: "beats m (distSq me ((b # bs) ! Suc j))" using j(4) by simp
    from A B C D E show ?thesis by blast
  qed
qed

text \<open>The state of \<open>getHandleForEvent\<close> before its loop over the bends.\<close>

lemma getHandleForEvent_eq:
  "getHandleForEvent g h me =
     checkBends g me (hitRect g h me) (bendList h) 0
       (if \<not> me_isSource me (text_shape (state h)) \<and> qualifies g me (hitRect g h me) (labelShape h)
        then Some (distSq me (labelShape h)) else None)
       (if me_isSource me (text_shape (state h)) \<or> qualifies g me (hitRect g h me) (labelShape h)
        then Some LABEL_HANDLE else None)"
  by (simp add: getHandleForEvent_def bendList_def checkShape_eq beats_def Let_def
      split: option.splits)

text \<open>
  Claim C9, amended. The label handle is checked first, then the bends in the order of
  their indices. When the event's source is not the label text of the edge, the result
  is none exactly when no handle qualifies, and otherwise a qualifying handle of least
  squared distance, the one checked last among those of least distance. When the
  event's source is the label text, the label handle is taken without its distance being
  measured: every qualifying bend overrides it, so the result is the bend of least
  squared distance among the qualifying bends (the last of them on a tie), and the label
  handle only when no bend qualifies.
\<close>

theorem getHandleForEvent_nearest:
  "case getHandleForEvent g h me of
     None \<Rightarrow>
       \<not> me_isSource me (text_shape (state h)) \<and>
       \<not> qualifies g me (hitRect g h me) (labelShape h) \<and>
       (\<forall>j<length (bendList h). \<not> qualifies g me (hitRect g h me) (bendList h ! j))
   | Some k \<Rightarrow>
       if k = LABEL_HANDLE
       then (if me_isSource me (text_shape (state h))
             then (\<forall>j<length (bendList h). \<not> qualifies g me (hitRect g h me) (bendList h ! j))
             else qualifies g me (hitRect g h me) (labelShape h) \<and>
                  (\<forall>j<length (bendList h). qualifies g me (hitRect g h me) (bendList h ! j) \<longrightarrow>
                     distSq me (labelShape h) < distSq me (bendList h ! j)))
       else (\<exists>i<length (bendList h). k = int i \<and>
               qualifies g me (hitRect g h me) (bendList h ! i) \<and>
               (\<not> me_isSource me (text_shape (state h)) \<and>
                qualifies g me (hitRect g h me) (labelShape h) \<longrightarrow>
                  distSq me (bendList h ! i) \<le> distSq me (labelShape h)) \<and>
               (\<forall>j<length (bendList h). qualifies g me (hitRect g h me) (bendList h ! j) \<longrightarrow>
                  distSq me (bendList h ! i) \<le> distSq me (bendList h ! j) \<and>
                  (i < j \<longrightarrow> distSq me (bendList h ! i) < distSq me (bendList h ! j))))"
proof -
  define hit where "hit = hitRect g h me"
  define bs where "bs = bendList h"
  define T where "T = me_isSource me (text_shape (state h))"
  define L where "L = qualifies g me hit (labelShape h)"
  define m0 where "m0 = (if \<not> T \<and> L then Some (distSq me (labelShape h)) else None)"
  define r0 where "r0 = (if T \<or> L then Some LABEL_HANDLE else None)"
  have run: "getHandleForEvent g h me = checkBends g me hit bs 0 m0 r0"
    unfolding hit_def bs_def T_def L_def m0_def r0_def by (rule getHandleForEvent_eq)
  show ?thesis
  proof (cases "\<exists>k<length bs. qualifies g me hit (bs ! k) \<and> beats m0 (distSq me (bs ! k))")
    case True
    from checkBends_pick [OF True, of 0 r0]
    obtain j where j: "j < length bs" "checkBends g me hit bs 0 m0 r0 = Some (int j)"
      "qualifies g me hit (bs ! j)" "beats m0 (distSq me (bs ! j))"
      "\<forall>k<length bs. qualifies g me hit (bs ! k) \<longrightarrow>
          distSq me (bs ! j) \<le> distSq me (bs ! k) \<and>
          (j < k \<longrightarrow> distSq me (bs ! j) < distSq me (bs ! k))"
      by auto
    have neq: "int j \<noteq> LABEL_HANDLE" by (simp add: LABEL_HANDLE_def)
    have lab: "\<not> T \<and> L \<longrightarrow> distSq me (bs ! j) \<le> distSq me (labelShape h)"
      using j(4) by (auto simp: m0_def beats_def)
    have res: "getHandleForEvent g h me = Some (int j)" using run j(2) by simp
    have "\<exists>i<length bs. int j = int i \<and> qualifies g me hit (bs ! i) \<and>
            (\<not> T \<and> L \<longrightarrow> distSq me (bs ! i) \<le> distSq me (labelShape h)) \<and>
            (\<forall>k<length bs. qualifies g me hit (bs ! k) \<longrightarrow>
               distSq me (bs ! i) \<le> distSq me (bs ! k) \<and>
               (i < k \<longrightarrow> distSq me (bs ! i) < distSq me (bs ! k)))"
      using j(1,3,5) lab by blast
    then show ?thesis
      unfolding res using neq
      by (simp only: option.case if_False hit_def bs_def T_def L_def)
  next
    case False
    then have keep: "\<forall>k<length bs. qualifies g me hit (bs ! k) \<longrightarrow>
        \<not> beats m0 (distSq me (bs ! k))" by blast
    from checkBends_keep [OF keep, of 0 r0] run
    have res: "getHandleForEvent g h me = r0" by simp
    show ?thesis
    proof (cases T)
      case True
      then have "m0 = None" "r0 = Some LABEL_HANDLE" by (simp_all add: m0_def r0_def)
      with keep have "\<forall>j<length bs. \<not> qualifies g me hit (bs ! j)"
        by (simp add: beats_def)
      then show ?thesis
        unfolding res \<open>r0 = Some LABEL_HANDLE\<close> using True
        by (simp add: hit_def bs_def T_def)
    next
      case nT: False
      show ?thesis
      proof (cases L)
        case True
        with nT have "m0 = Some (distSq me (labelShape h))" "r0 = Some LABEL_HANDLE"
          by (simp_all add: m0_def r0_def)
        with keep have "\<forall>j<length bs. qualifies g me hit (bs ! j) \<longrightarrow>
            distSq me (labelShape h) < distSq me (bs ! j)"
          by (simp add: beats_def not_le)
        then show ?thesis
          unfolding res \<open>r0 = Some LABEL_HANDLE\<close> using True nT
          by (simp add: hit_def bs_def T_def L_def)
      next
        case nL: False
        with nT have "m0 = None" "r0 = None" by (simp_all add: m0_def r0_def)
        with keep have "\<forall>j<length bs. \<not> qualifies g me hit (bs ! j)"
          by (simp add: beats_def)
        then show ?thesis
          unfolding res \<open>r0 = None\<close> using nL nT
          by (simp add: hit_def bs_def T_def L_def)
      qed
    qed
  qed
qed

text \<open>
  The claim as it was stated fails for a click on the label text: the label handle
  qualifies and lies nearer to the pointer than the bend 1, and the bend 1 is returned.
\<close>

theorem getHandleForEvent_label_text_counterexample:
  "getHandleForEvent ex_graph ex_text_handler ex_text_event = Some 1 \<and>
   qualifies ex_graph ex_text_event (hitRect ex_graph ex_text_handler ex_text_event)
     (labelShape ex_text_handler) \<and>
   qualifies ex_graph ex_text_event (hitRect ex_graph ex_text_handler ex_text_event)
     (bendList ex_text_handler ! 1) \<and>
   distSq ex_text_event (labelShape ex_text_handler) = 0 \<and>
   distSq ex_text_event (bendList ex_text_handler ! 1) = 4"
  by (simp add: getHandleForEvent_def checkShape_def hitRect_def qualifies_def distSq_def
      bendList_def me_isSource_def ex_text_handler_def ex_text_event_def ex_handler_def
      ex_event_def ex_graph_def ex_handle_def ex_intersects_def getCenterX_def getCenterY_def
      LABEL_HANDLE_def Let_def)

theorem getHandleForEvent_nearest_witness:
  "getHandleForEvent ex_graph ex_handler (ex_event 101 1) = Some 1 \<and>
   qualifies ex_graph (ex_event 101 1) (hitRect ex_graph ex_handler (ex_event 101 1))
     (bendList ex_handler ! 1) \<and>
   \<not> qualifies ex_graph (ex_event 101 1) (hitRect ex_graph ex_handler (ex_event 101 1))
     (labelShape ex_handler)"
  using getHandleForEvent_nearest [where g = ex_graph and h = ex_handler and me = "ex_event 101 1"]
  by (simp add: getHandleForEvent_def checkShape_def hitRect_def qualifies_def distSq_def
      bendList_def me_isSource_def ex_handler_def
      ex_event_def ex_graph_def ex_handle_def ex_intersects_def getCenterX_def getCenterY_def
      LABEL_HANDLE_def Let_def)

end
